theory Spec2Isabelle
  imports Complex_Main "HOL-Library.Log_Nat" "HOL-Library.Sublist"
begin

section \<open>CKB node dashboard: RPC client and history aggregator of server.js\<close>

text \<open>
  The development embeds the history path of \<^verbatim>\<open>server.js\<close>: \<^verbatim>\<open>ckbRequest\<close>,
  \<^verbatim>\<open>rpcCall\<close>, \<^verbatim>\<open>rpcBatch\<close>, \<^verbatim>\<open>formatHashrate\<close> and \<^verbatim>\<open>buildHistory\<close>.

  Conventions.
  \<^item> The node is the environment: what it answers to each request is an input of the
    model (\<open>wire\<close>, \<open>node\<close>), and the requests written to it are logged in the state.
  \<^item> JSON is typed: a response object carries an integer \<^verbatim>\<open>id\<close> and optional \<^verbatim>\<open>error\<close> and
    \<^verbatim>\<open>result\<close> fields; a header, a block and the chain info carry the fields the program
    reads. An absent, \<^verbatim>\<open>null\<close> or \<^verbatim>\<open>undefined\<close> value is \<open>None\<close>.
  \<^item> Strings are byte strings (UTF-8), as they travel over the wire.
  \<^item> The quantities the node sends as hexadecimal strings and the program reads with
    \<^verbatim>\<open>parseInt(s, 16)\<close> (block number, timestamp) are carried in parsed form, as
    natural numbers; integer-valued JavaScript Numbers are \<open>int\<close> or \<open>nat\<close> (exact
    below \<open>2 ^ 53\<close>, which millisecond timestamps and block heights are).
  \<^item> Non-integral JavaScript Numbers are rationals, each arithmetic result rounded to
    the nearest IEEE-754 double by \<open>fl\<close>. \<open>fl\<close> covers the normal range of doubles: no
    underflow to subnormals and no overflow to \<^verbatim>\<open>Infinity\<close>, which need magnitudes below
    \<open>2 ^ - 1022\<close> or from \<open>2 ^ 1024\<close> on.
  \<^item> A BigInt is a \<open>nat\<close>: the only BigInt values of the program are a parsed
    hexadecimal literal, quotients of it, and \<^verbatim>\<open>0n\<close>.
  \<^item> A rejected promise or a thrown exception is \<open>Inl\<close> of the error value.
\<close>

subsection \<open>JavaScript numbers and their renderings\<close>

definition digit_char :: "nat \<Rightarrow> char" where
  "digit_char d = ''0123456789abcdef'' ! d"

text \<open>Digits of \<open>n\<close> in base \<open>b\<close>, most significant first: \<^verbatim>\<open>String(n)\<close> for \<open>b = 10\<close>,
  \<^verbatim>\<open>n.toString(16)\<close> for \<open>b = 16\<close>.\<close>

function digits :: "nat \<Rightarrow> nat \<Rightarrow> string" where
  "digits b n = (if n < b \<or> b < 2 then [digit_char n]
                 else digits b (n div b) @ [digit_char (n mod b)])"
  by pat_completeness auto
termination
  by (relation "measure snd") auto

declare digits.simps [simp del]

definition toString16 :: "nat \<Rightarrow> string" where
  "toString16 n = digits 16 n"

definition String_of_bigint :: "nat \<Rightarrow> string" where
  "String_of_bigint n = digits 10 n"

text \<open>\<open>ilog2 a\<close> is the integer \<open>k\<close> with \<open>2 ^ k \<le> a < 2 ^ (k + 1)\<close>, for \<open>a > 0\<close>.\<close>

definition ilog2 :: "rat \<Rightarrow> int" where
  "ilog2 a = (if 1 \<le> a then bitlen \<lfloor>a\<rfloor> - 1 else - bitlen (\<lceil>1 / a\<rceil> - 1))"

text \<open>Round to the nearest integer, ties to the even one.\<close>

definition rne :: "rat \<Rightarrow> int" where
  "rne y = (let f = \<lfloor>y\<rfloor>; r = y - of_int f
            in if r < 1 / 2 then f
               else if 1 / 2 < r then f + 1
               else if even f then f else f + 1)"

text \<open>The double nearest to a rational (round to nearest, ties to even, 53-bit
  significand).\<close>

definition fl :: "rat \<Rightarrow> rat" where
  "fl x = (if x = 0 then 0
           else let e = ilog2 \<bar>x\<bar> - 52;
                    m = rne (\<bar>x\<bar> * 2 powi (- e))
                in sgn x * of_int m * 2 powi e)"

text \<open>\<^verbatim>\<open>Math.round\<close>: the nearest integer, ties towards \<open>+\<infinity>\<close>.\<close>

definition Math_round :: "rat \<Rightarrow> int" where
  "Math_round x = \<lfloor>x + 1 / 2\<rfloor>"

text \<open>\<^verbatim>\<open>x.toFixed(2)\<close> for \<open>\<bar>x\<bar> < 10 ^ 21\<close>, step by step as ECMA-262 gives it: the sign,
  the integer \<open>n\<close> for which \<open>n / 100\<close> is nearest to \<open>\<bar>x\<bar>\<close> (the larger on a tie), its
  decimal digits padded with zeros to three, and a point before the last two. (From
  \<open>10 ^ 21\<close> on JavaScript switches to exponent notation, which is not modelled.)\<close>

definition toFixed2 :: "rat \<Rightarrow> string" where
  "toFixed2 x =
     (let s = (if x < 0 then ''-'' else '''');
          n = nat \<lfloor>\<bar>x\<bar> * 100 + 1 / 2\<rfloor>;
          m = digits 10 n;
          m' = replicate (3 - length m) (CHR ''0'') @ m;
          k = length m'
      in s @ take (k - 2) m' @ ''.'' @ drop (k - 2) m')"

subsection \<open>formatHashrate\<close>

definition units :: "(nat \<times> string) list" where
  "units = [(10 ^ 18, ''EH/s''), (10 ^ 15, ''PH/s''), (10 ^ 12, ''TH/s''),
            (10 ^ 9, ''GH/s''), (10 ^ 6, ''MH/s''), (10 ^ 3, ''kH/s''), (1, ''H/s'')]"

text \<open>The \<^verbatim>\<open>for (const [div, unit] of units)\<close> loop with its early return, and the
  fall-through line after it.\<close>

fun formatHashrate_loop :: "(nat \<times> string) list \<Rightarrow> nat \<Rightarrow> string" where
  "formatHashrate_loop [] h = String_of_bigint h @ '' H/s''"
| "formatHashrate_loop ((d, unit) # us) h =
     (if d \<le> h
      then let val = fl (fl (of_nat (h * 1000 div d)) / 1000)
           in toFixed2 val @ '' '' @ unit
      else formatHashrate_loop us h)"

definition formatHashrate :: "nat \<Rightarrow> string" where
  "formatHashrate h = formatHashrate_loop units h"

subsection \<open>Errors, requests and the node's answers\<close>

text \<open>The error values the history path can reject with: \<^verbatim>\<open>new Error(message)\<close>, a
  socket error of Node.js (an \<^verbatim>\<open>Error\<close> with a \<^verbatim>\<open>code\<close> such as ECONNREFUSED), the
  \<^verbatim>\<open>SyntaxError\<close> of \<^verbatim>\<open>JSON.parse\<close>, and the \<^verbatim>\<open>TypeError\<close> of reading a property of
  \<^verbatim>\<open>null\<close> or \<^verbatim>\<open>undefined\<close>.\<close>

datatype js_error =
    Error string
  | SystemError string string
  | SyntaxError string
  | TypeError

text \<open>A JSON-RPC request object \<^verbatim>\<open>{jsonrpc: '2.0', id, method, params}\<close> and the body
  written to the node: one object, or an array of them.\<close>

datatype request = Request (req_id: nat) (req_method: string) (req_params: "string list")

datatype payload = Single request | Batch "request list"

text \<open>A JSON-RPC response object: \<^verbatim>\<open>id\<close>, and \<^verbatim>\<open>error\<close> or \<^verbatim>\<open>result\<close>. An absent,
  \<^verbatim>\<open>null\<close> or \<^verbatim>\<open>undefined\<close> field is \<open>None\<close>.\<close>

record rpc_error =
  code :: int
  message :: string

record 'a response =
  resp_id :: int
  resp_error :: "rpc_error option"
  resp_result :: "'a option"

text \<open>A parsed body: \<^verbatim>\<open>null\<close>, a number, string or boolean, a response object, or an
  array of response objects.\<close>

datatype 'a body = Null | Scalar | Object "'a response" | Array "'a response list"

text \<open>What happens to one HTTP request: the socket times out after
  \<^verbatim>\<open>CKB_TIMEOUT_MS\<close>, the socket fails (code and message), the body is not JSON
  (the parser's message), or the body parses.\<close>

datatype 'a wire =
    Timeout
  | SocketError string string
  | BadJson string
  | Parsed "'a body"

subsection \<open>Chain data and the snapshot\<close>

text \<open>The fields of the node's objects that the program reads.\<close>

record ckb_header =
  number :: nat
  timestamp :: nat

type_synonym tx = string

record ckb_block =
  header :: "ckb_header option"
  transactions :: "tx list option"

record chain_info =
  difficulty :: "string option"

text \<open>An entry of \<^verbatim>\<open>blockData\<close>, an entry of \<^verbatim>\<open>hashratePerBlock\<close>, and the object
  stored in \<^verbatim>\<open>histCache\<close>.\<close>

record block_stat =
  bd_number :: nat
  bd_timestamp :: nat
  txCount :: "int option"
  blockTime :: int

record hr_entry =
  hr_number :: nat
  hashrate :: rat

record snapshot =
  blocks :: "block_stat list"
  avgBlockTimeSec :: string
  networkHashrate :: string
  hashratePerBlock :: "hr_entry list"
  tipHeight :: nat

subsection \<open>Module state\<close>

text \<open>The module-level variables \<^verbatim>\<open>rpcId\<close>, \<^verbatim>\<open>histCache\<close> and \<^verbatim>\<open>histCacheTime\<close>, and
  the bodies written to the node so far (the effect of \<^verbatim>\<open>req.write\<close>).\<close>

record server =
  rpcId :: nat
  histCache :: "snapshot option"
  histCacheTime :: int
  sent :: "payload list"

definition initial :: server where
  "initial = \<lparr>rpcId = 1, histCache = None, histCacheTime = 0, sent = []\<rparr>"

definition HIST_TTL :: int where "HIST_TTL = 15000"
definition HIST_COUNT :: nat where "HIST_COUNT = 60"
definition TX_COUNT :: nat where "TX_COUNT = 30"

subsection \<open>ckbRequest, rpcCall, rpcBatch\<close>

text \<open>\<^verbatim>\<open>ckbRequest\<close> writes the body and returns a promise; \<open>write_body\<close> is the write,
  \<open>settle\<close> is what the promise settles to once the wire has answered.\<close>

definition write_body :: "payload \<Rightarrow> server \<Rightarrow> server" where
  "write_body b st = st\<lparr>sent := sent st @ [b]\<rparr>"

definition settle :: "'a wire \<Rightarrow> js_error + 'a body" where
  "settle w = (case w of
       Timeout \<Rightarrow> Inl (Error ''CKB node request timed out'')
     | SocketError c m \<Rightarrow> Inl (SystemError c m)
     | BadJson m \<Rightarrow> Inl (SyntaxError m)
     | Parsed b \<Rightarrow> Inr b)"

definition ckbRequest :: "payload \<Rightarrow> 'a wire \<Rightarrow> server \<Rightarrow> (js_error + 'a body) \<times> server" where
  "ckbRequest bodyObj w st = (settle w, write_body bodyObj st)"

text \<open>The \<^verbatim>\<open>.then\<close> callback of \<^verbatim>\<open>rpcCall\<close>. Reading \<^verbatim>\<open>r.error\<close> throws when \<^verbatim>\<open>r\<close> is
  \<^verbatim>\<open>null\<close>; a scalar and an array have neither an \<^verbatim>\<open>error\<close> nor a \<^verbatim>\<open>result\<close> property.\<close>

definition rpcCall_then :: "'a body \<Rightarrow> js_error + 'a option" where
  "rpcCall_then r = (case r of
       Null \<Rightarrow> Inl TypeError
     | Scalar \<Rightarrow> Inr None
     | Object obj \<Rightarrow> (case resp_error obj of
                        Some err \<Rightarrow> Inl (Error (message err))
                      | None \<Rightarrow> Inr (resp_result obj))
     | Array _ \<Rightarrow> Inr None)"

definition rpcCall :: "string \<Rightarrow> string list \<Rightarrow> 'a wire \<Rightarrow> server \<Rightarrow> (js_error + 'a option) \<times> server" where
  "rpcCall method params w st =
     (let (r, st') = ckbRequest (Single (Request (rpcId st) method params)) w
                       (st\<lparr>rpcId := rpcId st + 1\<rparr>)
      in (case r of Inl e \<Rightarrow> Inl e | Inr b \<Rightarrow> rpcCall_then b, st'))"

text \<open>\<^verbatim>\<open>results.sort((a, b) => a.id - b.id)\<close> is a stable sort on the ids.\<close>

definition rpcBatch_then :: "'a body \<Rightarrow> js_error + 'a option list" where
  "rpcBatch_then results = (case results of
       Array rs \<Rightarrow> Inr (map resp_result (sort_key resp_id rs))
     | _ \<Rightarrow> Inl (Error ''Expected batch array response''))"

definition rpcBatch :: "(string \<times> string list) list \<Rightarrow> 'a wire \<Rightarrow> server \<Rightarrow> (js_error + 'a option list) \<times> server" where
  "rpcBatch requests w st =
     (let batch = map (\<lambda>(i, r). Request i (fst r) (snd r)) (enumerate 0 requests);
          (r, st') = ckbRequest (Batch batch) w st
      in (case r of Inl e \<Rightarrow> Inl e | Inr b \<Rightarrow> rpcBatch_then b, st'))"

text \<open>What the promise returned by \<^verbatim>\<open>rpcCall\<close>, and by \<^verbatim>\<open>rpcBatch\<close>, settles to when
  the wire answers with \<open>w\<close>.\<close>

definition call_result :: "'a wire \<Rightarrow> js_error + 'a option" where
  "call_result w = (case settle w of Inl e \<Rightarrow> Inl e | Inr b \<Rightarrow> rpcCall_then b)"

definition batch_result :: "'a wire \<Rightarrow> js_error + 'a option list" where
  "batch_result w = (case settle w of Inl e \<Rightarrow> Inl e | Inr b \<Rightarrow> rpcBatch_then b)"

text \<open>\<^verbatim>\<open>Promise.all\<close> of two promises: both values, or the reason of the promise that
  rejects first. The flag says that the second one rejects first.\<close>

definition Promise_all :: "bool \<Rightarrow> js_error + 'a \<Rightarrow> js_error + 'b \<Rightarrow> js_error + 'a \<times> 'b" where
  "Promise_all second_first p q = (case (p, q) of
       (Inr a, Inr b) \<Rightarrow> Inr (a, b)
     | (Inl e, Inr _) \<Rightarrow> Inl e
     | (Inr _, Inl e) \<Rightarrow> Inl e
     | (Inl e1, Inl e2) \<Rightarrow> Inl (if second_first then e2 else e1))"

subsection \<open>Parsing the difficulty\<close>

text \<open>\<^verbatim>\<open>BigInt('0x' + chainInfo.difficulty.replace(/^0x/, ''))\<close>. The string given to
  \<^verbatim>\<open>BigInt\<close> starts with \<^verbatim>\<open>0x\<close>, so it parses exactly when the rest is one or more
  hexadecimal digits followed by white space only; \<open>white_space\<close> lists the UTF-8
  encodings of the white space and line terminator characters of ECMAScript.\<close>

definition replace_0x :: "string \<Rightarrow> string" where
  "replace_0x s = (if take 2 s = ''0x'' then drop 2 s else s)"

definition white_space :: "string list" where
  "white_space =
     [[CHR 0x09], [CHR 0x0A], [CHR 0x0B], [CHR 0x0C], [CHR 0x0D], [CHR 0x20],
      [CHR 0xC2, CHR 0xA0], [CHR 0xE1, CHR 0x9A, CHR 0x80],
      [CHR 0xE2, CHR 0x80, CHR 0x80], [CHR 0xE2, CHR 0x80, CHR 0x81],
      [CHR 0xE2, CHR 0x80, CHR 0x82], [CHR 0xE2, CHR 0x80, CHR 0x83],
      [CHR 0xE2, CHR 0x80, CHR 0x84], [CHR 0xE2, CHR 0x80, CHR 0x85],
      [CHR 0xE2, CHR 0x80, CHR 0x86], [CHR 0xE2, CHR 0x80, CHR 0x87],
      [CHR 0xE2, CHR 0x80, CHR 0x88], [CHR 0xE2, CHR 0x80, CHR 0x89],
      [CHR 0xE2, CHR 0x80, CHR 0x8A], [CHR 0xE2, CHR 0x80, CHR 0xA8],
      [CHR 0xE2, CHR 0x80, CHR 0xA9], [CHR 0xE2, CHR 0x80, CHR 0xAF],
      [CHR 0xE2, CHR 0x81, CHR 0x9F], [CHR 0xE3, CHR 0x80, CHR 0x80],
      [CHR 0xEF, CHR 0xBB, CHR 0xBF]]"

primrec trim_steps :: "nat \<Rightarrow> string \<Rightarrow> string" where
  "trim_steps 0 s = s"
| "trim_steps (Suc n) s =
     (case find (\<lambda>w. suffix w s) white_space of
        None \<Rightarrow> s
      | Some w \<Rightarrow> trim_steps n (take (length s - length w) s))"

text \<open>Every step removes at least one byte, so \<open>length s\<close> steps remove all trailing
  white space.\<close>

definition trimEnd :: "string \<Rightarrow> string" where
  "trimEnd s = trim_steps (length s) s"

definition hex_value :: "char \<Rightarrow> nat option" where
  "hex_value c =
     (let k = (of_char c :: nat)
      in if 48 \<le> k \<and> k \<le> 57 then Some (k - 48)
         else if 97 \<le> k \<and> k \<le> 102 then Some (k - 87)
         else if 65 \<le> k \<and> k \<le> 70 then Some (k - 55)
         else None)"

fun hex_digits :: "nat \<Rightarrow> string \<Rightarrow> nat option" where
  "hex_digits acc [] = Some acc"
| "hex_digits acc (c # cs) =
     (case hex_value c of None \<Rightarrow> None | Some d \<Rightarrow> hex_digits (16 * acc + d) cs)"

text \<open>\<^verbatim>\<open>BigInt('0x' + s)\<close>; \<open>None\<close> is the \<^verbatim>\<open>SyntaxError\<close>.\<close>

definition BigInt_0x :: "string \<Rightarrow> nat option" where
  "BigInt_0x s = (let t = trimEnd s in if t = [] then None else hex_digits 0 t)"

text \<open>The first statement of the \<^verbatim>\<open>try\<close> block; \<open>None\<close> is an exception: the
  \<^verbatim>\<open>TypeError\<close> of a \<^verbatim>\<open>chainInfo\<close> that is \<^verbatim>\<open>null\<close> or of a \<^verbatim>\<open>difficulty\<close> that is not a
  string, or the \<^verbatim>\<open>SyntaxError\<close> of \<^verbatim>\<open>BigInt\<close>.\<close>

definition parse_difficulty :: "chain_info option \<Rightarrow> nat option" where
  "parse_difficulty chainInfo = (case chainInfo of
       None \<Rightarrow> None
     | Some ci \<Rightarrow> (case difficulty ci of
                    None \<Rightarrow> None
                  | Some s \<Rightarrow> BigInt_0x (replace_0x s)))"

subsection \<open>The computations of buildHistory\<close>

text \<open>\<^verbatim>\<open>Math.max(0, (b.transactions?.length ?? 1) - 1)\<close>.\<close>

definition tx_count :: "ckb_block \<Rightarrow> int" where
  "tx_count b = max 0 (int (case transactions b of None \<Rightarrow> 1 | Some ts \<Rightarrow> length ts) - 1)"

text \<open>The body of \<^verbatim>\<open>blocks.forEach\<close>, and the map it fills.\<close>

definition txMap_step :: "(nat \<rightharpoonup> int) \<Rightarrow> ckb_block option \<Rightarrow> (nat \<rightharpoonup> int)" where
  "txMap_step txMap b = (case b of
       None \<Rightarrow> txMap
     | Some blk \<Rightarrow> (case header blk of
                     None \<Rightarrow> txMap
                   | Some h \<Rightarrow> txMap(number h \<mapsto> tx_count blk)))"

definition build_txMap :: "ckb_block option list \<Rightarrow> (nat \<rightharpoonup> int)" where
  "build_txMap fullBlocks = foldl txMap_step Map.empty fullBlocks"

text \<open>The loop \<^verbatim>\<open>for (let i = 1; i < headers.length; i++)\<close>: one entry for each pair of
  neighbours that are both present.\<close>

fun build_blockData :: "(nat \<rightharpoonup> int) \<Rightarrow> ckb_header option list \<Rightarrow> block_stat list" where
  "build_blockData txMap (prev # h # rest) =
     (case (h, prev) of
        (Some h', Some prev') \<Rightarrow>
          [\<lparr>bd_number = number h', bd_timestamp = timestamp h',
            txCount = txMap (number h'),
            blockTime = int (timestamp h') - int (timestamp prev')\<rparr>]
      | _ \<Rightarrow> [])
     @ build_blockData txMap (h # rest)"
| "build_blockData txMap _ = []"

text \<open>\<^verbatim>\<open>xs.slice(-k)\<close>, and \<^verbatim>\<open>xs.slice(a, b)\<close> for \<open>0 \<le> a \<le> b\<close>.\<close>

definition slice_last :: "nat \<Rightarrow> 'a list \<Rightarrow> 'a list" where
  "slice_last k xs = drop (length xs - k) xs"

definition slice_range :: "nat \<Rightarrow> nat \<Rightarrow> 'a list \<Rightarrow> 'a list" where
  "slice_range a b xs = take (b - a) (drop a xs)"

text \<open>\<^verbatim>\<open>xs.reduce((s, b) => s + b.blockTime, 0)\<close>.\<close>

definition sum_blockTime :: "block_stat list \<Rightarrow> int" where
  "sum_blockTime xs = foldl (\<lambda>s b. s + blockTime b) 0 xs"

definition avgSec_of :: "block_stat list \<Rightarrow> rat" where
  "avgSec_of blockData =
     (let recent = slice_last 20 blockData;
          avgMs = fl (of_int (sum_blockTime recent)
                      / of_nat (if length recent = 0 then 1 else length recent))
      in fl (avgMs / 1000))"

text \<open>\<^verbatim>\<open>diff / BigInt(Math.max(1, Math.round(s)))\<close>.\<close>

definition hashrate_of :: "nat \<Rightarrow> rat \<Rightarrow> nat" where
  "hashrate_of diff s = diff div nat (max 1 (Math_round s))"

text \<open>The body of the per-block loop, for index \<open>i\<close>. The loop runs for
  \<open>10 \<le> i < length blockData\<close>, where the slice has 10 entries.\<close>

definition hashrate_entry :: "nat \<Rightarrow> block_stat list \<Rightarrow> nat \<Rightarrow> hr_entry" where
  "hashrate_entry diff blockData i =
     (let window = 10;
          sl = slice_range (i - window) i blockData;
          wAvgMs = fl (of_int (sum_blockTime sl) / of_nat (length sl));
          wAvgS = fl (wAvgMs / 1000);
          wHr = (if 0 < wAvgS then hashrate_of diff wAvgS else 0)
      in \<lparr>hr_number = bd_number (blockData ! i),
          hashrate = fl (of_nat (wHr div 10 ^ 12))\<rparr>)"

text \<open>The sentinel that \<^verbatim>\<open>hashrateStr\<close> starts with: the one-character string U+2014
  (an em dash), in UTF-8.\<close>

definition unavailable :: string where
  "unavailable = [CHR 0xE2, CHR 0x80, CHR 0x94]"

text \<open>The \<^verbatim>\<open>try\<close> block: \<^verbatim>\<open>hashrateStr\<close> and \<^verbatim>\<open>hashratePerBlock\<close> after it. Only its
  first statement can throw.\<close>

definition hashrates :: "chain_info option \<Rightarrow> rat \<Rightarrow> block_stat list \<Rightarrow> string \<times> hr_entry list" where
  "hashrates chainInfo avgSec blockData = (case parse_difficulty chainInfo of
       None \<Rightarrow> (unavailable, [])
     | Some diff \<Rightarrow>
         (formatHashrate (hashrate_of diff avgSec),
          map (hashrate_entry diff blockData) [10..<length blockData]))"

text \<open>Everything after the last \<^verbatim>\<open>await\<close>: the object assigned to \<^verbatim>\<open>histCache\<close>.
  (\<open>fullBlocks\<close> is the variable \<^verbatim>\<open>blocks\<close> of the source, the fetched full blocks; \<open>blocks\<close>
  is the field of the snapshot.)\<close>

definition make_snapshot :: "nat \<Rightarrow> chain_info option \<Rightarrow> ckb_header option list \<Rightarrow> ckb_block option list \<Rightarrow> snapshot" where
  "make_snapshot tipNum chainInfo headers fullBlocks =
     (let txMap = build_txMap fullBlocks;
          blockData = build_blockData txMap headers;
          avgSec = avgSec_of blockData;
          (hashrateStr, perBlock) = hashrates chainInfo avgSec blockData
      in \<lparr>blocks = blockData,
          avgBlockTimeSec = toFixed2 avgSec,
          networkHashrate = hashrateStr,
          hashratePerBlock = perBlock,
          tipHeight = tipNum\<rparr>)"

subsection \<open>buildHistory\<close>

text \<open>The answers of the node during one refresh, one per request the refresh writes.\<close>

record node =
  tip_reply :: "ckb_header wire"
  info_reply :: "chain_info wire"
  info_rejects_first :: bool
  headers_reply :: "ckb_header wire"
  blocks_reply :: "ckb_block wire"

definition fresh :: "int \<Rightarrow> server \<Rightarrow> bool" where
  "fresh now st = (histCache st \<noteq> None \<and> now - histCacheTime st < HIST_TTL)"

text \<open>The requests of the two batches. \<open>count\<close> is at most \<open>tipNum + 1\<close>, so the
  subtractions are those of the source.\<close>

definition header_requests :: "nat \<Rightarrow> nat \<Rightarrow> (string \<times> string list) list" where
  "header_requests tipNum count =
     (let start = tipNum + 1 - count
      in map (\<lambda>i. (''get_header_by_number'', [''0x'' @ toString16 (start + i)])) [0..<count])"

definition block_requests :: "nat \<Rightarrow> nat \<Rightarrow> (string \<times> string list) list" where
  "block_requests tipNum txFetchCount =
     map (\<lambda>i. (''get_block_by_number'', [''0x'' @ toString16 (tipNum + 1 - txFetchCount + i)]))
       [0..<txFetchCount]"

text \<open>The refresh, from the first \<^verbatim>\<open>await\<close> on. \<open>now\<close> is the \<^verbatim>\<open>Date.now()\<close> of the
  call. A \<^verbatim>\<open>tipHeader\<close> that is \<^verbatim>\<open>null\<close> makes \<^verbatim>\<open>tipHeader.number\<close> throw.\<close>

definition refresh :: "int \<Rightarrow> node \<Rightarrow> server \<Rightarrow> (js_error + snapshot) \<times> server" where
  "refresh now nd st =
     (let (tip, st1) = rpcCall ''get_tip_header'' [] (tip_reply nd) st;
          (info, st2) = rpcCall ''get_blockchain_info'' [] (info_reply nd) st1
      in (case Promise_all (info_rejects_first nd) tip info of
            Inl e \<Rightarrow> (Inl e, st2)
          | Inr (tipHeader, chainInfo) \<Rightarrow>
              (case tipHeader of
                 None \<Rightarrow> (Inl TypeError, st2)
               | Some th \<Rightarrow>
                   (let tipNum = number th;
                        count = min HIST_COUNT (tipNum + 1);
                        (hs, st3) = rpcBatch (header_requests tipNum count) (headers_reply nd) st2
                    in (case hs of
                          Inl e \<Rightarrow> (Inl e, st3)
                        | Inr headers \<Rightarrow>
                            (let txFetchCount = min TX_COUNT count;
                                 (bs, st4) = rpcBatch (block_requests tipNum txFetchCount)
                                               (blocks_reply nd) st3
                             in (case bs of
                                   Inl e \<Rightarrow> (Inl e, st4)
                                 | Inr fullBlocks \<Rightarrow>
                                     (let snap = make_snapshot tipNum chainInfo headers fullBlocks
                                      in (Inr snap,
                                          st4\<lparr>histCache := Some snap,
                                              histCacheTime := now\<rparr>)))))))))"

definition buildHistory :: "int \<Rightarrow> node \<Rightarrow> server \<Rightarrow> (js_error + snapshot) \<times> server" where
  "buildHistory now nd st =
     (if fresh now st then (Inr (the (histCache st)), st) else refresh now nd st)"

text \<open>A call of \<^verbatim>\<open>buildHistory\<close> runs without interruption up to its first \<^verbatim>\<open>await\<close>:
  it reads the clock, tests the cache and, if the cache is not fresh, writes the two
  requests of \<^verbatim>\<open>Promise.all\<close>; then it is suspended until the node answers.\<close>

datatype started = Cached snapshot | Awaiting

definition buildHistory_start :: "int \<Rightarrow> server \<Rightarrow> started \<times> server" where
  "buildHistory_start now st =
     (if fresh now st then (Cached (the (histCache st)), st)
      else (Awaiting,
            write_body (Single (Request (rpcId st + 1) ''get_blockchain_info'' []))
              (write_body (Single (Request (rpcId st) ''get_tip_header'' []))
                 (st\<lparr>rpcId := rpcId st + 2\<rparr>))))"

text \<open>Calls that start one after the other, before any answer has arrived.\<close>

definition start_calls :: "int list \<Rightarrow> server \<Rightarrow> server" where
  "start_calls nows st = fold (\<lambda>now s. snd (buildHistory_start now s)) nows st"

definition tip_fetches :: "server \<Rightarrow> nat" where
  "tip_fetches st =
     length (filter (\<lambda>p. case p of Single r \<Rightarrow> req_method r = ''get_tip_header''
                                   | Batch _ \<Rightarrow> False) (sent st))"

subsection \<open>The average block time in the words of the specification\<close>

text \<open>The arithmetic mean of the \<open>blockTime\<close> values of the last \<open>min (length blocks) 20\<close>
  entries of \<open>blocks\<close>, in milliseconds, and 0 when there is no entry; and the same
  divided by 1000. Both are exact rationals, for comparison with \<open>avgSec_of\<close>.\<close>

definition spec_mean_blockTime :: "block_stat list \<Rightarrow> rat" where
  "spec_mean_blockTime bs =
     (let k = min (length bs) 20
      in if k = 0 then 0
         else of_int (sum_list (map blockTime (drop (length bs - k) bs))) / of_nat k)"

definition spec_averageBlockTimeSec :: "block_stat list \<Rightarrow> rat" where
  "spec_averageBlockTimeSec bs = spec_mean_blockTime bs / 1000"

subsection \<open>The unit of a rate in the words of the specification\<close>


subsection \<open>Example answers\<close>

text \<open>Inputs for the examples below: a node that answers a single call with the result
  \<open>x\<close>, and a node that answers a batch with the results \<open>xs\<close>, listing the response
  items in the reverse of the request order.\<close>

definition answer :: "'a \<Rightarrow> 'a wire" where
  "answer x = Parsed (Object \<lparr>resp_id = 1, resp_error = None, resp_result = Some x\<rparr>)"

definition batch_answer :: "'a option list \<Rightarrow> 'a wire" where
  "batch_answer xs =
     Parsed (Array (rev (map (\<lambda>(i, x). \<lparr>resp_id = int i, resp_error = None, resp_result = x\<rparr>)
                           (enumerate 0 xs))))"

section \<open>Properties\<close>

subsection \<open>Rules for evaluating the number renderings\<close>

lemma digits_small: "n < b \<Longrightarrow> digits b n = [digit_char n]"
  by (simp add: digits.simps)

lemma digits_step:
  "2 \<le> b \<Longrightarrow> b \<le> n \<Longrightarrow> digits b n = digits b (n div b) @ [digit_char (n mod b)]"
  by (subst digits.simps) simp

lemma digit_char_simps:
  "digit_char 0 = CHR ''0''" "digit_char 1 = CHR ''1''" "digit_char (Suc 0) = CHR ''1''"
  "digit_char 2 = CHR ''2''" "digit_char 3 = CHR ''3''" "digit_char 4 = CHR ''4''"
  "digit_char 5 = CHR ''5''" "digit_char 6 = CHR ''6''" "digit_char 7 = CHR ''7''"
  "digit_char 8 = CHR ''8''" "digit_char 9 = CHR ''9''" "digit_char 10 = CHR ''a''"
  "digit_char 11 = CHR ''b''" "digit_char 12 = CHR ''c''" "digit_char 13 = CHR ''d''"
  "digit_char 14 = CHR ''e''" "digit_char 15 = CHR ''f''"
  by (simp_all add: digit_char_def eval_nat_numeral)

lemmas digits_eval = digits_small digits_step digit_char_simps

lemma rne_of_int: "rne (of_int n) = n"
  by (simp add: rne_def)

text \<open>An integer below \<open>2 ^ 53\<close> in magnitude is a double.\<close>

lemma fl_of_int_small:
  assumes "\<bar>n\<bar> < 2 ^ 53"
  shows "fl (of_int n) = of_int n"
proof (cases "n = 0")
  case True
  then show ?thesis by (simp add: fl_def)
next
  case False
  define a where "a = \<bar>n\<bar>"
  have a: "0 < a" "a < 2 ^ 53" using False assms by (simp_all add: a_def)
  define k where "k = bitlen a - 1"
  have bl: "2 ^ nat k \<le> a"
    using bitlen_bounds[OF a(1)] by (simp add: k_def)
  have "(2::int) ^ nat k < 2 ^ 53" using bl a(2) by linarith
  then have "nat k < 53" by (simp only: power_strict_increasing_iff[of "2::int"])
  then have k52: "k \<le> 52" by linarith
  have il: "ilog2 \<bar>of_int n\<bar> = k"
  proof -
    have "\<bar>rat_of_int n\<bar> = of_int a" by (simp add: a_def)
    moreover have "1 \<le> rat_of_int a" using a(1) by simp
    ultimately show ?thesis by (simp add: ilog2_def k_def)
  qed
  have sc: "\<bar>rat_of_int n\<bar> * 2 powi (- (k - 52)) = of_int (a * 2 ^ nat (52 - k))"
    using k52 by (simp add: a_def power_int_def)
  have "fl (of_int n) = sgn (rat_of_int n) * of_int (a * 2 ^ nat (52 - k)) * 2 powi (k - 52)"
    using False unfolding fl_def Let_def il sc rne_of_int by simp
  also have "\<dots> = sgn (rat_of_int n) * of_int a * (2 ^ nat (52 - k) * 2 powi (k - 52))"
    by simp
  also have "(2::rat) ^ nat (52 - k) * 2 powi (k - 52) = 1"
    using k52 by (simp add: power_int_def inverse_eq_divide power_one_over)
  also have "sgn (rat_of_int n) * of_int a * 1 = of_int n"
    by (simp add: a_def sgn_mult_abs)
  finally show ?thesis .
qed

lemma fl_of_nat_small:
  assumes "n < 2 ^ 53"
  shows "fl (of_nat n) = of_nat n"
proof -
  have "\<bar>int n\<bar> < 2 ^ 53" using assms by simp
  from fl_of_int_small[OF this] show ?thesis by simp
qed

lemma fl_0: "fl 0 = 0"
  by (simp add: fl_def)

subsection \<open>Rules for evaluating doubles\<close>

lemma floor_rat_numeral:
  "\<lfloor>numeral a / numeral b :: rat\<rfloor> = numeral a div numeral b"
  "\<lfloor>1 / numeral b :: rat\<rfloor> = 1 div numeral b"
  by (metis floor_divide_of_int_eq of_int_numeral, metis floor_divide_of_int_eq of_int_1 of_int_numeral)

lemma ceiling_rat_numeral:
  "\<lceil>numeral a / numeral b :: rat\<rceil> = - (- numeral a div numeral b)"
  "\<lceil>1 / numeral b :: rat\<rceil> = - (- 1 div numeral b)"
  by (metis ceiling_divide_eq_div of_int_numeral, metis ceiling_divide_eq_div of_int_1 of_int_numeral)

lemma bitlen_pos: "0 < x \<Longrightarrow> bitlen x = bitlen (x div 2) + 1"
  by (subst compute_bitlen) simp

lemma fl_numeral: "(numeral k :: int) < 2 ^ 53 \<Longrightarrow> fl (numeral k) = numeral k"
  using fl_of_int_small[of "numeral k"] by simp


lemmas fl_eval = fl_def ilog2_def rne_def Let_def bitlen_pos bitlen_zero power_int_def
  floor_rat_numeral ceiling_rat_numeral inverse_eq_divide power_one_over

lemma fl_eighth: "fl (1 / 8) = 1 / 8"
  by (simp add: fl_eval)


lemmas toFixed2_eval = toFixed2_def Let_def digits_eval floor_rat_numeral



text \<open>The double nearest to 1.005 lies below it, so it is rendered as \<^verbatim>\<open>1.00\<close>, as
  JavaScript does.\<close>

lemma toFixed2_1005: "toFixed2 (fl (1005 / 1000)) = ''1.00''"
  by (simp add: toFixed2_eval fl_eval)






subsection \<open>The rounding error of a double\<close>

lemma ilog2_bounds:
  assumes "0 < a"
  shows "2 powi (ilog2 a) \<le> a" and "a < 2 powi (ilog2 a + 1)"
proof -
  have "2 powi (ilog2 a) \<le> a \<and> a < 2 powi (ilog2 a + 1)"
  proof (cases "1 \<le> a")
    case True
    define f where "f = \<lfloor>a\<rfloor>"
    have f: "0 < f" using True by (simp add: f_def)
    define k where "k = bitlen f - 1"
    have k: "0 \<le> k" using f by (simp add: k_def bitlen_alt_def)
    have il: "ilog2 a = k" using True by (simp add: ilog2_def k_def f_def)
    from bitlen_bounds[OF f] have b: "2 ^ nat k \<le> f" "f < 2 ^ nat (k + 1)"
      by (simp_all add: k_def)
    have "rat_of_int (2 ^ nat k) \<le> of_int f" using b(1) by (simp only: of_int_le_iff)
    also have "\<dots> \<le> a" by (simp add: f_def)
    finally have 1: "2 powi k \<le> a" using k by (simp add: power_int_def)
    have "f + 1 \<le> 2 ^ nat (k + 1)" using b(2) by simp
    then have "rat_of_int (f + 1) \<le> of_int (2 ^ nat (k + 1))" by (simp only: of_int_le_iff)
    moreover have "a < rat_of_int (f + 1)" using floor_correct[of a] by (simp add: f_def)
    ultimately have 2: "a < 2 powi (k + 1)" using k by (simp add: power_int_def)
    from 1 2 il show ?thesis by simp
  next
    case False
    then have a1: "a < 1" by simp
    define c where "c = \<lceil>1 / a\<rceil> - 1"
    have "1 < 1 / a" using assms a1 by simp
    then have "1 < \<lceil>1 / a\<rceil>" by (simp add: less_ceiling_iff)
    then have c: "0 < c" by (simp add: c_def)
    have c1: "rat_of_int c < 1 / a" unfolding c_def using ceiling_correct[of "1 / a"] by simp
    have c2: "1 / a \<le> rat_of_int c + 1" unfolding c_def using ceiling_correct[of "1 / a"] by simp
    define b where "b = bitlen c"
    have b1: "1 \<le> b" using c by (simp add: b_def bitlen_alt_def)
    have il: "ilog2 a = - b" using False by (simp add: ilog2_def b_def c_def)
    from bitlen_bounds[OF c] have bb: "2 ^ nat (b - 1) \<le> c" "c < 2 ^ nat b"
      by (simp_all add: b_def)
    have "c + 1 \<le> 2 ^ nat b" using bb(2) by simp
    then have "rat_of_int (c + 1) \<le> of_int (2 ^ nat b)" by (simp only: of_int_le_iff)
    with c2 have "1 / a \<le> 2 ^ nat b" by simp
    then have "1 \<le> 2 ^ nat b * a" using assms by (simp add: field_simps)
    then have "1 / 2 ^ nat b \<le> a" by (simp add: field_simps)
    then have 1: "2 powi (- b) \<le> a" using b1 by (simp add: power_int_def inverse_eq_divide power_one_over)
    have "rat_of_int (2 ^ nat (b - 1)) \<le> of_int c" using bb(1) by (simp only: of_int_le_iff)
    then have "rat_of_int (2 ^ nat (b - 1)) < 1 / a" using c1 by (rule le_less_trans)
    then have "2 ^ nat (b - 1) < 1 / a" by simp
    then have "2 ^ nat (b - 1) * a < 1" using assms by (simp add: field_simps)
    then have "a < 1 / 2 ^ nat (b - 1)" by (simp add: field_simps)
    moreover have "(2::rat) powi (- b + 1) = 1 / 2 ^ nat (b - 1)"
      using b1 by (cases "b = 1") (simp_all add: power_int_def inverse_eq_divide power_one_over)
    ultimately have 2: "a < 2 powi (- b + 1)" by simp
    from 1 2 il show ?thesis by simp
  qed
  then show "2 powi (ilog2 a) \<le> a" and "a < 2 powi (ilog2 a + 1)" by simp_all
qed

lemma rne_error: "\<bar>of_int (rne y) - y\<bar> \<le> 1 / 2"
proof -
  have "of_int \<lfloor>y\<rfloor> \<le> y" "y < of_int \<lfloor>y\<rfloor> + 1" by linarith+
  then show ?thesis by (auto simp: rne_def Let_def abs_le_iff)
qed

lemma fl_error: "\<bar>fl x - x\<bar> \<le> \<bar>x\<bar> / 2 ^ 53"
proof (cases "x = 0")
  case True
  then show ?thesis by (simp add: fl_def)
next
  case False
  define a where "a = \<bar>x\<bar>"
  have a: "0 < a" using False by (simp add: a_def)
  define e where "e = ilog2 a - 52"
  define y where "y = a * 2 powi (- e)"
  define m where "m = rne y"
  have p: "(0::rat) < 2 powi e" by simp
  have ay: "a = y * 2 powi e"
    by (simp add: y_def power_int_minus field_simps)
  have flx: "fl x = sgn x * of_int m * 2 powi e"
    using False by (simp add: fl_def Let_def a_def e_def y_def m_def)
  have x: "x = sgn x * y * 2 powi e"
    using ay by (simp add: a_def mult.assoc[symmetric]) (metis mult.assoc sgn_mult_abs)
  have "fl x - x = sgn x * (of_int m - y) * 2 powi e"
    by (subst flx, subst (2) x) (simp add: algebra_simps)
  then have "\<bar>fl x - x\<bar> = \<bar>of_int m - y\<bar> * 2 powi e"
    using False by (simp add: abs_mult abs_sgn_eq)
  also have "\<dots> \<le> (1 / 2) * 2 powi e"
    using rne_error[of y] p unfolding m_def by (intro mult_right_mono) simp_all
  also have "(2::rat) powi e = 2 powi (ilog2 a) * 2 powi (- 52)"
  proof -
    have "(2::rat) powi (ilog2 a + (- 52)) = 2 powi (ilog2 a) * 2 powi (- 52)"
      by (rule power_int_add) simp
    then show ?thesis by (simp add: e_def)
  qed
  also have "(1 / 2) * (2 powi (ilog2 a) * 2 powi (- 52)) \<le> (1 / 2) * (a * 2 powi (- 52))"
    using ilog2_bounds(1)[OF a] by (intro mult_left_mono mult_right_mono) simp_all
  also have "\<dots> = a / 2 ^ 53" by (simp add: power_int_def inverse_eq_divide power_one_over)
  finally show ?thesis by (simp add: a_def)
qed

text \<open>The result of \<open>fl\<close> has a significand of 53 bits.\<close>

lemma fl_significand:
  assumes "x \<noteq> 0"
  shows "\<exists>m. fl x = sgn x * of_int m * 2 powi (ilog2 \<bar>x\<bar> - 52) \<and> 2 ^ 52 \<le> m \<and> m \<le> 2 ^ 53"
proof -
  define a where "a = \<bar>x\<bar>"
  have a: "0 < a" using assms by (simp add: a_def)
  define e where "e = ilog2 a - 52"
  define y where "y = a * 2 powi (- e)"
  have p: "(2::rat) powi (ilog2 a) * 2 powi (- e) = 2 ^ 52"
  proof -
    have "(2::rat) powi (ilog2 a + (- e)) = 2 powi (ilog2 a) * 2 powi (- e)"
      by (rule power_int_add) simp
    then show ?thesis by (simp add: e_def power_int_def)
  qed
  have q: "(2::rat) powi (ilog2 a + 1) * 2 powi (- e) = 2 ^ 53"
  proof -
    have "(2::rat) powi (ilog2 a + 1 + (- e)) = 2 powi (ilog2 a + 1) * 2 powi (- e)"
      by (rule power_int_add) simp
    then show ?thesis by (simp add: e_def power_int_def)
  qed
  have "2 powi (ilog2 a) * 2 powi (- e) \<le> y"
    unfolding y_def using ilog2_bounds(1)[OF a] by (intro mult_right_mono) simp_all
  then have lo: "2 ^ 52 \<le> y" by (simp only: p)
  have "y < 2 powi (ilog2 a + 1) * 2 powi (- e)"
    unfolding y_def using ilog2_bounds(2)[OF a] by (intro mult_strict_right_mono) simp_all
  then have hi: "y < 2 ^ 53" by (simp only: q)
  have f1: "2 ^ 52 \<le> \<lfloor>y\<rfloor>" using lo by (simp add: le_floor_iff)
  have f2: "\<lfloor>y\<rfloor> < 2 ^ 53" using hi by (simp add: floor_less_iff)
  have "\<lfloor>y\<rfloor> \<le> rne y \<and> rne y \<le> \<lfloor>y\<rfloor> + 1" by (simp add: rne_def Let_def)
  with f1 f2 have m: "2 ^ 52 \<le> rne y \<and> rne y \<le> 2 ^ 53" by linarith
  have "fl x = sgn x * of_int (rne y) * 2 powi (ilog2 \<bar>x\<bar> - 52)"
    using assms by (simp add: fl_def Let_def a_def e_def y_def)
  with m show ?thesis by blast
qed

subsection \<open>The RPC client\<close>

lemma rpcCall_fst: "fst (rpcCall method params w st) = call_result w"
  by (simp add: rpcCall_def ckbRequest_def call_result_def)

lemma rpcCall_snd:
  "snd (rpcCall method params w st) =
     write_body (Single (Request (rpcId st) method params)) (st\<lparr>rpcId := rpcId st + 1\<rparr>)"
  by (simp add: rpcCall_def ckbRequest_def)

lemma rpcBatch_fst: "fst (rpcBatch requests w st) = batch_result w"
  by (simp add: rpcBatch_def ckbRequest_def batch_result_def)

lemma rpcBatch_snd:
  "snd (rpcBatch requests w st) =
     write_body (Batch (map (\<lambda>(i, r). Request i (fst r) (snd r)) (enumerate 0 requests))) st"
  by (simp add: rpcBatch_def ckbRequest_def)

text \<open>Sorting a response array that holds one item for each of the ids \<open>0, \<dots>, n - 1\<close>
  puts the item with id \<open>i\<close> at position \<open>i\<close>.\<close>

lemma sorted_ids:
  assumes "length rs = n" and "resp_id ` set rs = int ` {0..<n}"
  shows "map resp_id (sort_key resp_id rs) = map int [0..<n]"
proof -
  let ?ks = "map resp_id (sort_key resp_id rs)"
  have s: "sorted ?ks" by (rule sorted_sort_key)
  have set: "set ?ks = int ` {0..<n}" using assms(2) by simp
  have len: "length ?ks = n" using assms(1) by simp
  have "card (set ?ks) = n" unfolding set by (simp add: card_image)
  then have d: "distinct ?ks" using len by (simp add: card_distinct)
  have s': "sorted (map int [0..<n])" by (simp add: sorted_map sorted_wrt_iff_nth_less)
  have d': "distinct (map int [0..<n])" by (simp add: distinct_map)
  have "set (map int [0..<n]) = set ?ks" unfolding set by simp
  then show ?thesis using sorted_distinct_set_unique[OF s d s' d'] by simp
qed

lemma sorted_nth_id:
  assumes "length rs = n" and "resp_id ` set rs = int ` {0..<n}" and "i < n"
  shows "resp_id (sort_key resp_id rs ! i) = int i"
proof -
  have "map resp_id (sort_key resp_id rs) ! i = map int [0..<n] ! i"
    using sorted_ids[OF assms(1,2)] by simp
  then show ?thesis using assms(1,3) by simp
qed

lemma sorted_nth_unique:
  assumes "length rs = n" and "resp_id ` set rs = int ` {0..<n}" and "i < n"
    and "r \<in> set rs" and "resp_id r = int i"
  shows "sort_key resp_id rs ! i = r"
proof -
  let ?ss = "sort_key resp_id rs"
  have "r \<in> set ?ss" using assms(4) by simp
  then obtain j where j: "j < length ?ss" "?ss ! j = r" unfolding in_set_conv_nth by blast
  then have "j < n" using assms(1) by simp
  then have "resp_id (?ss ! j) = int j" by (rule sorted_nth_id[OF assms(1,2)])
  then have "j = i" using j(2) assms(5) by simp
  then show ?thesis using j(2) by simp
qed

text \<open>
  Claim C1. For a batch of \<open>N\<close> requests, \<^verbatim>\<open>rpcBatch\<close> tags request \<open>i\<close> with id \<open>i\<close>; when
  the response array lists, in any order, one response item for each of the ids
  \<open>0, \<dots>, N - 1\<close>, it returns exactly \<open>N\<close> results, and the result at position \<open>i\<close> is the
  \<^verbatim>\<open>result\<close> field of the one response item whose id is \<open>i\<close>.
\<close>

theorem rpcBatch_request_order:
  assumes "length rs = length requests"
    and "resp_id ` set rs = int ` {0..<length requests}"
  shows "\<exists>results batch.
           rpcBatch requests (Parsed (Array rs)) st = (Inr results, write_body (Batch batch) st)
           \<and> map req_id batch = [0..<length requests]
           \<and> length results = length requests
           \<and> (\<forall>i<length requests. \<exists>!r. r \<in> set rs \<and> resp_id r = int i)
           \<and> (\<forall>i<length requests. \<forall>r\<in>set rs. resp_id r = int i \<longrightarrow> results ! i = resp_result r)"
proof -
  let ?n = "length requests"
  let ?ss = "sort_key resp_id rs"
  let ?res = "map resp_result ?ss"
  let ?batch = "map (\<lambda>(i, r). Request i (fst r) (snd r)) (enumerate 0 requests)"
  have r: "rpcBatch requests (Parsed (Array rs)) st = (Inr ?res, write_body (Batch ?batch) st)"
    by (simp add: rpcBatch_def ckbRequest_def settle_def rpcBatch_then_def)
  have "map req_id ?batch = map fst (enumerate 0 requests)"
    by (simp add: case_prod_beta comp_def)
  then have b: "map req_id ?batch = [0..<?n]" by simp
  have l: "length ?res = ?n" using assms(1) by simp
  have u: "\<exists>!r. r \<in> set rs \<and> resp_id r = int i" if "i < ?n" for i
  proof (rule ex1I[of _ "?ss ! i"])
    have "?ss ! i \<in> set ?ss" using that assms(1) by (simp del: set_sort)
    then show "?ss ! i \<in> set rs \<and> resp_id (?ss ! i) = int i"
      using sorted_nth_id[OF assms that] by simp
  next
    fix r assume "r \<in> set rs \<and> resp_id r = int i"
    then show "r = ?ss ! i" using sorted_nth_unique[OF assms that] by blast
  qed
  have v: "?res ! i = resp_result r" if "i < ?n" "r \<in> set rs" "resp_id r = int i" for i r
    using sorted_nth_unique[OF assms that] that(1) assms(1) by simp
  show ?thesis using r b l u v by blast
qed

text \<open>Two requests answered in reverse order.\<close>

theorem rpcBatch_request_order_witness:
  "(let requests = [(''get_header_by_number'', [''0x0'']), (''get_header_by_number'', [''0x1''])];
        rs = [\<lparr>resp_id = 1, resp_error = None, resp_result = Some ''b''\<rparr>,
              \<lparr>resp_id = 0, resp_error = None, resp_result = Some ''a''\<rparr>]
    in length rs = length requests
       \<and> resp_id ` set rs = int ` {0..<length requests}
       \<and> fst (rpcBatch requests (Parsed (Array rs)) initial) = Inr [Some ''a'', Some ''b'']
       \<and> (\<exists>results batch.
           rpcBatch requests (Parsed (Array rs)) initial = (Inr results, write_body (Batch batch) initial)
           \<and> map req_id batch = [0..<length requests]
           \<and> length results = length requests
           \<and> (\<forall>i<length requests. \<exists>!r. r \<in> set rs \<and> resp_id r = int i)
           \<and> (\<forall>i<length requests. \<forall>r\<in>set rs. resp_id r = int i \<longrightarrow> results ! i = resp_result r)))"
proof -
  define requests :: "(string \<times> string list) list"
    where "requests = [(''get_header_by_number'', [''0x0'']), (''get_header_by_number'', [''0x1''])]"
  define rs :: "string response list"
    where "rs = [\<lparr>resp_id = 1, resp_error = None, resp_result = Some ''b''\<rparr>,
                 \<lparr>resp_id = 0, resp_error = None, resp_result = Some ''a''\<rparr>]"
  have h1: "length rs = length requests" by (simp add: rs_def requests_def)
  have h2: "resp_id ` set rs = int ` {0..<length requests}"
    by (auto simp add: rs_def requests_def)
  have e: "fst (rpcBatch requests (Parsed (Array rs)) initial) = Inr [Some ''a'', Some ''b'']"
    by (simp add: rpcBatch_fst batch_result_def settle_def rpcBatch_then_def rs_def)
  show ?thesis
    unfolding Let_def requests_def[symmetric] rs_def[symmetric]
    using h1 h2 e rpcBatch_request_order[OF h1 h2, of initial] by blast
qed

subsection \<open>Errors of a single call\<close>

text \<open>
  Claim C9 as stated (the call fails with an error that carries the node's code and
  message and that the caller can tell from a transport error) does not hold: a node
  error whose message is the timeout text gives the very rejection of a timed-out
  request, and two node errors that differ in the code only give the same rejection.
\<close>

theorem rpcCall_error_counterexample:
  "fst (rpcCall ''get_tip_header'' [] (Parsed (Object \<lparr>resp_id = 1,
       resp_error = Some \<lparr>code = - 32601, message = ''CKB node request timed out''\<rparr>,
       resp_result = (None :: ckb_header option)\<rparr>)) initial)
     = fst (rpcCall ''get_tip_header'' [] (Timeout :: ckb_header wire) initial)
   \<and> fst (rpcCall ''get_tip_header'' [] (Parsed (Object \<lparr>resp_id = 1,
       resp_error = Some \<lparr>code = - 32601, message = ''Method not found''\<rparr>,
       resp_result = (None :: ckb_header option)\<rparr>)) initial)
     = fst (rpcCall ''get_tip_header'' [] (Parsed (Object \<lparr>resp_id = 1,
       resp_error = Some \<lparr>code = - 32000, message = ''Method not found''\<rparr>,
       resp_result = (None :: ckb_header option)\<rparr>)) initial)"
  by (simp add: rpcCall_fst call_result_def settle_def rpcCall_then_def)

text \<open>
  Claim C9, amended. When the response object of a single call has an \<^verbatim>\<open>error\<close> field,
  \<^verbatim>\<open>rpcCall\<close> rejects with a plain \<^verbatim>\<open>Error\<close> whose message is the node's message; the code
  is dropped. The rejection differs from that of a socket failure and of a body that is
  not JSON, and it differs from the rejection of a timeout exactly when the node's
  message is not the timeout text.
\<close>

theorem rpcCall_error:
  assumes "resp_error obj = Some err"
  shows "fst (rpcCall method params (Parsed (Object obj)) st) = Inl (Error (message err))
       \<and> fst (rpcCall method params (Parsed (Object (obj\<lparr>resp_error := Some (err\<lparr>code := c\<rparr>)\<rparr>))) st)
           = fst (rpcCall method params (Parsed (Object obj)) st)
       \<and> fst (rpcCall method params (SocketError sc sm) st)
           \<noteq> fst (rpcCall method params (Parsed (Object obj)) st)
       \<and> fst (rpcCall method params (BadJson jm) st)
           \<noteq> fst (rpcCall method params (Parsed (Object obj)) st)
       \<and> (fst (rpcCall method params Timeout st) = fst (rpcCall method params (Parsed (Object obj)) st)
            \<longleftrightarrow> message err = ''CKB node request timed out'')"
  using assms by (auto simp add: rpcCall_fst call_result_def settle_def rpcCall_then_def)

theorem rpcCall_error_witness:
  "(let err = \<lparr>code = - 32601, message = ''Method not found''\<rparr>;
        obj = \<lparr>resp_id = 1, resp_error = Some err, resp_result = (None :: ckb_header option)\<rparr>
    in resp_error obj = Some err
       \<and> fst (rpcCall ''get_tip_header'' [] (Parsed (Object obj)) initial)
            = Inl (Error ''Method not found'')
       \<and> fst (rpcCall ''get_tip_header'' [] Timeout initial)
            \<noteq> fst (rpcCall ''get_tip_header'' [] (Parsed (Object obj)) initial))"
proof -
  define err where "err = \<lparr>code = - 32601, message = ''Method not found''\<rparr>"
  define obj where "obj = \<lparr>resp_id = 1, resp_error = Some err, resp_result = (None :: ckb_header option)\<rparr>"
  have h: "resp_error obj = Some err" by (simp add: obj_def)
  have m: "message err = ''Method not found''" by (simp add: err_def)
  note w = rpcCall_error[OF h, of "''get_tip_header''" "[]" initial 0 "[]" "[]" "[]"]
  have r: "fst (rpcCall ''get_tip_header'' [] (Parsed (Object obj)) initial)
            = Inl (Error ''Method not found'')"
    using w m by simp
  have ne: "message err \<noteq> ''CKB node request timed out''" by (simp add: err_def)
  have t: "fst (rpcCall ''get_tip_header'' [] Timeout initial)
            \<noteq> fst (rpcCall ''get_tip_header'' [] (Parsed (Object obj)) initial)"
    using w ne by blast
  show ?thesis
    unfolding Let_def err_def[symmetric] obj_def[symmetric] using h r t by blast
qed

subsection \<open>The refresh cycle\<close>

lemma rpcCall_eq:
  "rpcCall method params w st =
     (call_result w, write_body (Single (Request (rpcId st) method params)) (st\<lparr>rpcId := rpcId st + 1\<rparr>))"
  by (simp add: rpcCall_def ckbRequest_def call_result_def)

lemma rpcBatch_eq:
  "rpcBatch requests w st =
     (batch_result w,
      write_body (Batch (map (\<lambda>(i, r). Request i (fst r) (snd r)) (enumerate 0 requests))) st)"
  by (simp add: rpcBatch_def ckbRequest_def batch_result_def)

lemma histCache_write_body [simp]:
  "histCache (write_body b st) = histCache st" "histCacheTime (write_body b st) = histCacheTime st"
  "rpcId (write_body b st) = rpcId st" "sent (write_body b st) = sent st @ [b]"
  by (simp_all add: write_body_def)

text \<open>The result of a refresh, stage by stage.\<close>

lemma refresh_fst:
  "fst (refresh now nd st) =
     (case Promise_all (info_rejects_first nd) (call_result (tip_reply nd)) (call_result (info_reply nd)) of
        Inl e \<Rightarrow> Inl e
      | Inr (tipHeader, chainInfo) \<Rightarrow>
          (case tipHeader of
             None \<Rightarrow> Inl TypeError
           | Some th \<Rightarrow>
               (case batch_result (headers_reply nd) of
                  Inl e \<Rightarrow> Inl e
                | Inr headers \<Rightarrow>
                    (case batch_result (blocks_reply nd) of
                       Inl e \<Rightarrow> Inl e
                     | Inr fullBlocks \<Rightarrow>
                         Inr (make_snapshot (number th) chainInfo headers fullBlocks)))))"
  by (simp add: refresh_def rpcCall_eq rpcBatch_eq Let_def split: sum.splits option.splits prod.splits)

lemma refresh_cache:
  "histCache (snd (refresh now nd st)) =
     (case fst (refresh now nd st) of Inl e \<Rightarrow> histCache st | Inr snap \<Rightarrow> Some snap)"
  "histCacheTime (snd (refresh now nd st)) =
     (case fst (refresh now nd st) of Inl e \<Rightarrow> histCacheTime st | Inr snap \<Rightarrow> now)"
  by (simp_all add: refresh_def rpcCall_eq rpcBatch_eq Let_def split: sum.splits option.splits prod.splits)

lemma Promise_all_Inl:
  "Promise_all f p q = Inl e \<Longrightarrow> p = Inl e \<or> q = Inl e"
  by (auto simp: Promise_all_def split: sum.splits if_splits)

lemma Promise_all_rejects:
  "isl p \<or> isl q \<Longrightarrow> \<exists>e. Promise_all f p q = Inl e"
  by (auto simp: Promise_all_def isl_def split: sum.splits)

lemma Promise_all_Inr:
  "Promise_all f (Inr a) (Inr b) = Inr (a, b)"
  by (simp add: Promise_all_def)

lemma buildHistory_stale: "\<not> fresh now st \<Longrightarrow> buildHistory now nd st = refresh now nd st"
  by (simp add: buildHistory_def)

text \<open>\<open>buildHistory_start\<close> is the beginning of a refresh: its state is the state after
  the two calls of \<^verbatim>\<open>Promise.all\<close> have written their requests.\<close>

lemma buildHistory_start_refresh:
  "\<not> fresh now st \<Longrightarrow>
     snd (buildHistory_start now st) =
       snd (rpcCall ''get_blockchain_info'' [] w2 (snd (rpcCall ''get_tip_header'' [] w1 st)))"
  by (simp add: buildHistory_start_def rpcCall_eq write_body_def)

subsubsection \<open>The example answers\<close>

lemma batch_answer_items:
  "length (rev (map (\<lambda>(i, x). \<lparr>resp_id = int i, resp_error = None, resp_result = x\<rparr>) (enumerate 0 xs))) = length xs"
  "resp_id ` set (rev (map (\<lambda>(i, x). \<lparr>resp_id = int i, resp_error = None, resp_result = x\<rparr>) (enumerate 0 xs)))
     = int ` {0..<length xs}"
proof -
  show "length (rev (map (\<lambda>(i, x). \<lparr>resp_id = int i, resp_error = None, resp_result = x\<rparr>) (enumerate 0 xs))) = length xs"
    by simp
  have "resp_id ` set (rev (map (\<lambda>(i, x). \<lparr>resp_id = int i, resp_error = None, resp_result = x\<rparr>) (enumerate 0 xs)))
     = int ` fst ` set (enumerate 0 xs)"
    by (force simp: image_iff)
  also have "fst ` set (enumerate 0 xs) = {0..<length xs}"
    using map_fst_enumerate[of 0 xs] by (metis add_0 list.set_map set_upt)
  finally show "resp_id ` set (rev (map (\<lambda>(i, x). \<lparr>resp_id = int i, resp_error = None, resp_result = x\<rparr>) (enumerate 0 xs)))
     = int ` {0..<length xs}" .
qed

text \<open>The batch answer in reverse order is put back in request order.\<close>

lemma batch_result_batch_answer: "batch_result (batch_answer xs) = Inr xs"
proof -
  let ?rs = "rev (map (\<lambda>(i, x). \<lparr>resp_id = int i, resp_error = None, resp_result = x\<rparr>) (enumerate 0 xs))"
  have "map resp_result (sort_key resp_id ?rs) = xs"
  proof (rule nth_equalityI)
    show "length (map resp_result (sort_key resp_id ?rs)) = length xs" by simp
  next
    fix i assume "i < length (map resp_result (sort_key resp_id ?rs))"
    then have i: "i < length xs" by simp
    let ?r = "\<lparr>resp_id = int i, resp_error = None, resp_result = xs ! i\<rparr>"
    have "(i, xs ! i) \<in> set (enumerate 0 xs)" using i by (simp add: in_set_enumerate_eq)
    then have "?r \<in> set ?rs" by force
    from sorted_nth_unique[OF batch_answer_items i this] have "sort_key resp_id ?rs ! i = ?r"
      by simp
    then show "map resp_result (sort_key resp_id ?rs) ! i = xs ! i" using i by simp
  qed
  then show ?thesis by (simp add: batch_result_def batch_answer_def settle_def rpcBatch_then_def)
qed

lemma call_result_answer: "call_result (answer x) = Inr (Some x)"
  by (simp add: call_result_def answer_def settle_def rpcCall_then_def)

lemma call_result_Timeout: "call_result Timeout = Inl (Error ''CKB node request timed out'')"
  by (simp add: call_result_def settle_def)

lemma batch_result_Timeout: "batch_result Timeout = Inl (Error ''CKB node request timed out'')"
  by (simp add: batch_result_def settle_def)

lemma refresh_succeeds:
  assumes "call_result (tip_reply nd) = Inr (Some th)"
    and "call_result (info_reply nd) = Inr chainInfo"
    and "batch_result (headers_reply nd) = Inr headers"
    and "batch_result (blocks_reply nd) = Inr fullBlocks"
  shows "fst (refresh now nd st) = Inr (make_snapshot (number th) chainInfo headers fullBlocks)"
  using assms by (simp add: refresh_fst Promise_all_Inr)

subsection \<open>Transaction counts\<close>

lemma build_txMap_snoc: "build_txMap (bs @ [b]) = txMap_step (build_txMap bs) b"
  by (simp add: build_txMap_def)

lemma tx_count_nonneg: "0 \<le> tx_count b"
  by (simp add: tx_count_def)

lemma build_txMap_Some:
  "build_txMap bs n = Some v \<Longrightarrow>
     \<exists>blk h. Some blk \<in> set bs \<and> header blk = Some h \<and> number h = n \<and> v = tx_count blk"
proof (induction bs arbitrary: v rule: rev_induct)
  case Nil
  then show ?case by (simp add: build_txMap_def)
next
  case (snoc b bs)
  show ?case
  proof (cases b)
    case None
    with snoc show ?thesis by (auto simp: build_txMap_snoc txMap_step_def)
  next
    case (Some blk)
    show ?thesis
    proof (cases "header blk")
      case None
      with Some snoc show ?thesis by (auto simp: build_txMap_snoc txMap_step_def)
    next
      case (Some h)
      show ?thesis
      proof (cases "number h = n")
        case True
        with \<open>b = Some blk\<close> Some snoc.prems show ?thesis
          by (auto simp: build_txMap_snoc txMap_step_def)
      next
        case False
        with \<open>b = Some blk\<close> Some snoc.prems have "build_txMap bs n = Some v"
          by (simp add: build_txMap_snoc txMap_step_def)
        from snoc.IH[OF this] show ?thesis by auto
      qed
    qed
  qed
qed

lemma build_txMap_present:
  "Some b \<in> set bs \<Longrightarrow> header b = Some h \<Longrightarrow> build_txMap bs (number h) \<noteq> None"
proof (induction bs rule: rev_induct)
  case Nil
  then show ?case by simp
next
  case (snoc x xs)
  show ?case
  proof (cases "x = Some b")
    case True
    with snoc.prems show ?thesis by (simp add: build_txMap_snoc txMap_step_def)
  next
    case False
    with snoc.prems have "Some b \<in> set xs" by simp
    from snoc.IH[OF this snoc.prems(2)] show ?thesis
      by (simp add: build_txMap_snoc txMap_step_def split: option.splits)
  qed
qed

lemma build_txMap_only:
  assumes "Some b \<in> set bs" and "header b = Some h"
    and "\<forall>b' h'. Some b' \<in> set bs \<and> header b' = Some h' \<and> number h' = number h \<longrightarrow> b' = b"
  shows "build_txMap bs (number h) = Some (tx_count b)"
proof -
  from build_txMap_present[OF assms(1,2)] obtain v where v: "build_txMap bs (number h) = Some v"
    by blast
  from build_txMap_Some[OF v] assms(3) have "v = tx_count b" by blast
  with v show ?thesis by simp
qed

lemma build_blockData_txCount:
  "e \<in> set (build_blockData txMap hs) \<Longrightarrow> txCount e = txMap (bd_number e)"
  by (induction txMap hs rule: build_blockData.induct) (auto split: option.splits)

lemma blocks_make_snapshot:
  "blocks (make_snapshot tipNum chainInfo headers fullBlocks) =
     build_blockData (build_txMap fullBlocks) headers"
  by (simp add: make_snapshot_def Let_def split: prod.splits)

text \<open>
  Claim C3. For a fetched full block, the derived transaction count is
  \<open>max 0 (length of the raw transaction array - 1)\<close>: 4 for a length of 5, 0 for a length
  of 0 or 1, never negative. The count is stored in \<^verbatim>\<open>txMap\<close> under the block's number
  (\<^verbatim>\<open>forEach\<close> runs in order, so the last block with a number decides, and a fetched
  block that is the only one with its number is found there), every value in \<^verbatim>\<open>txMap\<close> is
  the count of a fetched block with that number, and every entry of the snapshot's
  \<open>blocks\<close> reads its \<open>txCount\<close> from \<^verbatim>\<open>txMap\<close>.
\<close>

theorem transaction_count:
  "(transactions b = Some txs \<longrightarrow> tx_count b = max 0 (int (length txs) - 1))
   \<and> (transactions b = Some txs \<and> length txs = 5 \<longrightarrow> tx_count b = 4)
   \<and> (transactions b = Some txs \<and> length txs \<le> 1 \<longrightarrow> tx_count b = 0)
   \<and> 0 \<le> tx_count b
   \<and> (header b = Some h \<longrightarrow> build_txMap (fullBlocks @ [Some b]) (number h) = Some (tx_count b))
   \<and> (Some b \<in> set fullBlocks \<and> header b = Some h
        \<and> (\<forall>b' h'. Some b' \<in> set fullBlocks \<and> header b' = Some h' \<and> number h' = number h
                  \<longrightarrow> b' = b)
        \<longrightarrow> build_txMap fullBlocks (number h) = Some (tx_count b))
   \<and> (\<forall>n v. build_txMap fullBlocks n = Some v \<longrightarrow>
         0 \<le> v \<and> (\<exists>blk h. Some blk \<in> set fullBlocks \<and> header blk = Some h
                          \<and> number h = n \<and> v = tx_count blk))
   \<and> (\<forall>e \<in> set (blocks (make_snapshot tipNum chainInfo headers fullBlocks)).
         txCount e = build_txMap fullBlocks (bd_number e))"
proof -
  have 1: "transactions b = Some txs \<longrightarrow> tx_count b = max 0 (int (length txs) - 1)"
    by (simp add: tx_count_def)
  have 2: "transactions b = Some txs \<and> length txs = 5 \<longrightarrow> tx_count b = 4"
    by (simp add: tx_count_def)
  have 3: "transactions b = Some txs \<and> length txs \<le> 1 \<longrightarrow> tx_count b = 0"
    by (auto simp add: tx_count_def)
  have 5: "header b = Some h \<longrightarrow> build_txMap (fullBlocks @ [Some b]) (number h) = Some (tx_count b)"
    by (simp add: build_txMap_snoc txMap_step_def)
  have 6: "\<forall>n v. build_txMap fullBlocks n = Some v \<longrightarrow>
         0 \<le> v \<and> (\<exists>blk h. Some blk \<in> set fullBlocks \<and> header blk = Some h
                          \<and> number h = n \<and> v = tx_count blk)"
    using build_txMap_Some tx_count_nonneg by blast
  have 7: "\<forall>e \<in> set (blocks (make_snapshot tipNum chainInfo headers fullBlocks)).
         txCount e = build_txMap fullBlocks (bd_number e)"
    by (simp add: blocks_make_snapshot build_blockData_txCount)
  have 8: "Some b \<in> set fullBlocks \<and> header b = Some h
        \<and> (\<forall>b' h'. Some b' \<in> set fullBlocks \<and> header b' = Some h' \<and> number h' = number h
                  \<longrightarrow> b' = b)
        \<longrightarrow> build_txMap fullBlocks (number h) = Some (tx_count b)"
    using build_txMap_only[of b fullBlocks h] by blast
  from 1 2 3 tx_count_nonneg[of b] 5 8 6 7 show ?thesis by (intro conjI)
qed

theorem transaction_count_witness:
  "(let h = \<lparr>number = 7, timestamp = 1000\<rparr>;
        txs = [''cellbase'', ''t1'', ''t2'', ''t3'', ''t4''];
        b = \<lparr>header = Some h, transactions = Some txs\<rparr>;
        b0 = \<lparr>header = Some h, transactions = Some []\<rparr>
    in transactions b = Some txs \<and> length txs = 5 \<and> tx_count b = 4
       \<and> transactions b0 = Some [] \<and> tx_count b0 = 0
       \<and> header b = Some h \<and> build_txMap ([] @ [Some b]) (number h) = Some 4)"
proof -
  define h where "h = \<lparr>number = 7, timestamp = 1000\<rparr>"
  define txs where "txs = [''cellbase'', ''t1'', ''t2'', ''t3'', ''t4'']"
  define b where "b = \<lparr>header = Some h, transactions = Some txs\<rparr>"
  define b0 where "b0 = \<lparr>header = Some h, transactions = Some ([] :: tx list)\<rparr>"
  have p: "transactions b = Some txs" "length txs = 5" "header b = Some h"
    "transactions b0 = Some []"
    by (simp_all add: b_def txs_def b0_def)
  have "tx_count b = 4" using transaction_count[of b txs h "[]"] p by simp
  moreover have "tx_count b0 = 0" using transaction_count[of b0 "[]" h "[]"] p by simp
  moreover have "build_txMap ([] @ [Some b]) (number h) = Some (tx_count b)"
    using transaction_count[of b txs h "[]"] p by blast
  ultimately show ?thesis
    unfolding Let_def h_def[symmetric] txs_def[symmetric] b_def[symmetric] b0_def[symmetric]
    using p by simp
qed

subsection \<open>The average block time\<close>

lemma sum_blockTime_foldl:
  "foldl (\<lambda>s b. s + blockTime b) a xs = a + sum_list (map blockTime xs)"
  by (induction xs arbitrary: a) simp_all

lemma sum_blockTime_sum_list: "sum_blockTime xs = sum_list (map blockTime xs)"
  by (simp add: sum_blockTime_def sum_blockTime_foldl)

text \<open>The average of the code is the mean of the specification, computed in double
  arithmetic.\<close>

lemma avgSec_of_spec: "avgSec_of bs = fl (fl (spec_mean_blockTime bs) / 1000)"
proof (cases "bs = []")
  case True
  then show ?thesis
    by (simp add: avgSec_of_def spec_mean_blockTime_def slice_last_def sum_blockTime_def fl_0)
next
  case False
  define k where "k = min (length bs) 20"
  define recent where "recent = slice_last 20 bs"
  have k: "k \<noteq> 0" using False by (simp add: k_def)
  have r: "recent = drop (length bs - k) bs"
    by (cases "length bs \<le> 20") (simp_all add: recent_def slice_last_def k_def min_def)
  have l: "length recent = k" by (simp add: r k_def min_def)
  have 1: "avgSec_of bs = fl (fl (of_int (sum_blockTime recent)
      / of_nat (if length recent = 0 then 1 else length recent)) / 1000)"
    by (simp add: avgSec_of_def Let_def recent_def)
  have 2: "(if length recent = 0 then 1 else length recent) = k"
    using k l by simp
  have 3: "sum_blockTime recent = sum_list (map blockTime (drop (length bs - k) bs))"
    by (simp only: sum_blockTime_sum_list r)
  have 4: "spec_mean_blockTime bs
      = of_int (sum_list (map blockTime (drop (length bs - k) bs))) / of_nat k"
    using k by (simp add: spec_mean_blockTime_def Let_def k_def)
  show ?thesis by (simp only: 1 2 3 4)
qed

lemma avgSec_of_error:
  "\<bar>avgSec_of bs - spec_averageBlockTimeSec bs\<bar> \<le> \<bar>spec_averageBlockTimeSec bs\<bar> / 2 ^ 51"
proof -
  define m where "m = spec_mean_blockTime bs"
  define z where "z = fl m / 1000"
  have 1: "\<bar>z - m / 1000\<bar> \<le> \<bar>m / 1000\<bar> / 2 ^ 53"
  proof -
    have "z - m / 1000 = (fl m - m) / 1000" by (simp add: z_def diff_divide_distrib)
    then have "\<bar>z - m / 1000\<bar> = \<bar>(fl m - m) / 1000\<bar>" by (rule arg_cong)
    also have "\<dots> = \<bar>fl m - m\<bar> / 1000" by (simp add: abs_divide)
    also have "\<dots> \<le> (\<bar>m\<bar> / 2 ^ 53) / 1000"
      using fl_error[of m] by (intro divide_right_mono) simp_all
    finally show ?thesis by simp
  qed
  have "\<bar>z\<bar> \<le> \<bar>m / 1000\<bar> + \<bar>z - m / 1000\<bar>" by linarith
  also have "\<dots> \<le> \<bar>m / 1000\<bar> + \<bar>m / 1000\<bar> / 2 ^ 53" using 1 by simp
  also have "\<dots> \<le> 2 * \<bar>m / 1000\<bar>" by simp
  finally have 2: "\<bar>z\<bar> \<le> 2 * \<bar>m / 1000\<bar>" .
  have "\<bar>fl z - z\<bar> \<le> \<bar>z\<bar> / 2 ^ 53" by (rule fl_error)
  also have "\<dots> \<le> (2 * \<bar>m / 1000\<bar>) / 2 ^ 53"
    using 2 by (intro divide_right_mono) simp_all
  finally have 3: "\<bar>fl z - z\<bar> \<le> 2 * \<bar>m / 1000\<bar> / 2 ^ 53" .
  have "\<bar>fl z - m / 1000\<bar> \<le> \<bar>fl z - z\<bar> + \<bar>z - m / 1000\<bar>" by linarith
  also have "\<dots> \<le> 2 * \<bar>m / 1000\<bar> / 2 ^ 53 + \<bar>m / 1000\<bar> / 2 ^ 53"
    using 1 3 by linarith
  also have "\<dots> \<le> \<bar>m / 1000\<bar> / 2 ^ 51" by simp
  finally show ?thesis
    by (simp add: avgSec_of_spec spec_averageBlockTimeSec_def m_def z_def)
qed

lemma avgBlockTimeSec_make_snapshot:
  "avgBlockTimeSec (make_snapshot tipNum chainInfo headers fullBlocks) =
     toFixed2 (avgSec_of (build_blockData (build_txMap fullBlocks) headers))"
  by (simp add: make_snapshot_def Let_def split: prod.splits)

lemma refresh_Inr:
  "fst (refresh now nd st) = Inr snap \<Longrightarrow>
     \<exists>tipNum chainInfo headers fullBlocks. snap = make_snapshot tipNum chainInfo headers fullBlocks"
  by (auto simp: refresh_fst split: sum.splits option.splits prod.splits)

text \<open>A chain of two blocks, 125 ms apart.\<close>

lemma two_block_snapshot:
  "fst (buildHistory 0
     \<lparr>tip_reply = answer \<lparr>number = 1, timestamp = 1125\<rparr>,
      info_reply = answer \<lparr>difficulty = Some ''0x10''\<rparr>,
      info_rejects_first = False,
      headers_reply = batch_answer [Some \<lparr>number = 0, timestamp = 1000\<rparr>,
                                    Some \<lparr>number = 1, timestamp = 1125\<rparr>],
      blocks_reply = batch_answer [None, None]\<rparr> initial)
   = Inr (make_snapshot 1 (Some \<lparr>difficulty = Some ''0x10''\<rparr>)
            [Some \<lparr>number = 0, timestamp = 1000\<rparr>, Some \<lparr>number = 1, timestamp = 1125\<rparr>]
            [None, None])"
proof -
  have "\<not> fresh 0 initial" by (simp add: fresh_def initial_def)
  then show ?thesis
    by (simp add: buildHistory_stale refresh_fst call_result_answer batch_result_batch_answer
        Promise_all_Inr)
qed

lemma two_block_blocks:
  "blocks (make_snapshot 1 (Some \<lparr>difficulty = Some ''0x10''\<rparr>)
            [Some \<lparr>number = 0, timestamp = 1000\<rparr>, Some \<lparr>number = 1, timestamp = 1125\<rparr>]
            [None, None])
   = [\<lparr>bd_number = 1, bd_timestamp = 1125, txCount = None, blockTime = 125\<rparr>]"
  by (simp add: blocks_make_snapshot build_txMap_def txMap_step_def)

lemma two_block_avgSec:
  "avgSec_of [\<lparr>bd_number = 1, bd_timestamp = 1125, txCount = None, blockTime = 125\<rparr>] = 1 / 8"
  by (simp add: avgSec_of_def slice_last_def sum_blockTime_def fl_numeral fl_eighth)

lemma two_block_spec:
  "spec_averageBlockTimeSec
     [\<lparr>bd_number = 1, bd_timestamp = 1125, txCount = None, blockTime = 125\<rparr>] = 1 / 8"
  by (simp add: spec_averageBlockTimeSec_def spec_mean_blockTime_def)

lemma toFixed2_eighth: "toFixed2 (1 / 8) = ''0.13''"
  by (simp add: toFixed2_eval)

lemma two_block_field:
  "avgBlockTimeSec (make_snapshot 1 (Some \<lparr>difficulty = Some ''0x10''\<rparr>)
            [Some \<lparr>number = 0, timestamp = 1000\<rparr>, Some \<lparr>number = 1, timestamp = 1125\<rparr>]
            [None, None]) = ''0.13''"
proof -
  let ?snap = "make_snapshot 1 (Some \<lparr>difficulty = Some ''0x10''\<rparr>)
            [Some \<lparr>number = 0, timestamp = 1000\<rparr>, Some \<lparr>number = 1, timestamp = 1125\<rparr>]
            [None, None]"
  have "avgBlockTimeSec ?snap = toFixed2 (avgSec_of (blocks ?snap))"
    by (simp only: avgBlockTimeSec_make_snapshot blocks_make_snapshot)
  then show ?thesis by (simp only: two_block_blocks two_block_avgSec toFixed2_eighth)
qed

lemma two_block_mean:
  "spec_averageBlockTimeSec (blocks (make_snapshot 1 (Some \<lparr>difficulty = Some ''0x10''\<rparr>)
            [Some \<lparr>number = 0, timestamp = 1000\<rparr>, Some \<lparr>number = 1, timestamp = 1125\<rparr>]
            [None, None])) = 1 / 8"
  by (simp only: two_block_blocks two_block_spec)

text \<open>
  Claim C2 as stated (the snapshot's \<open>averageBlockTimeSec\<close> equals the arithmetic mean of
  the last block times divided by 1000) does not hold: for a chain of two blocks that
  are 125 ms apart the mean divided by 1000 is \<open>1 / 8 = 0.125\<close>, and the field of the
  snapshot is the string \<^verbatim>\<open>0.13\<close>.
\<close>

theorem average_block_time_counterexample:
  "map_sum id avgBlockTimeSec (fst (buildHistory 0
     \<lparr>tip_reply = answer \<lparr>number = 1, timestamp = 1125\<rparr>,
      info_reply = answer \<lparr>difficulty = Some ''0x10''\<rparr>,
      info_rejects_first = False,
      headers_reply = batch_answer [Some \<lparr>number = 0, timestamp = 1000\<rparr>,
                                    Some \<lparr>number = 1, timestamp = 1125\<rparr>],
      blocks_reply = batch_answer [None, None]\<rparr> initial)) = Inr ''0.13''
   \<and> map_sum id (spec_averageBlockTimeSec \<circ> blocks) (fst (buildHistory 0
     \<lparr>tip_reply = answer \<lparr>number = 1, timestamp = 1125\<rparr>,
      info_reply = answer \<lparr>difficulty = Some ''0x10''\<rparr>,
      info_rejects_first = False,
      headers_reply = batch_answer [Some \<lparr>number = 0, timestamp = 1000\<rparr>,
                                    Some \<lparr>number = 1, timestamp = 1125\<rparr>],
      blocks_reply = batch_answer [None, None]\<rparr> initial)) = Inr (1 / 8)"
  by (simp only: two_block_snapshot two_block_field two_block_mean map_sum.simps comp_apply)

text \<open>
  Claim C2, amended. The \<open>avgBlockTimeSec\<close> of a snapshot produced by a cycle is the string
  \<^verbatim>\<open>avgSec.toFixed(2)\<close>, where \<^verbatim>\<open>avgSec\<close> is the arithmetic mean of the \<open>blockTime\<close> values of
  the last \<open>min (length blocks) 20\<close> entries of \<open>blocks\<close>, divided by 1000, both divisions
  in double arithmetic (so within a relative error of \<open>2 ^ - 51\<close> of the exact value);
  when \<open>blocks\<close> is empty \<^verbatim>\<open>avgSec\<close> is 0 and the field is \<^verbatim>\<open>0.00\<close>.
\<close>

theorem average_block_time:
  assumes "\<not> fresh now st" and "fst (buildHistory now nd st) = Inr snap"
  shows "avgBlockTimeSec snap = toFixed2 (avgSec_of (blocks snap))
       \<and> avgSec_of (blocks snap) = fl (fl (spec_mean_blockTime (blocks snap)) / 1000)
       \<and> \<bar>avgSec_of (blocks snap) - spec_averageBlockTimeSec (blocks snap)\<bar>
            \<le> \<bar>spec_averageBlockTimeSec (blocks snap)\<bar> / 2 ^ 51
       \<and> (blocks snap = [] \<longrightarrow> avgSec_of (blocks snap) = 0 \<and> avgBlockTimeSec snap = ''0.00'')"
proof -
  from assms have "fst (refresh now nd st) = Inr snap" by (simp add: buildHistory_stale)
  from refresh_Inr[OF this] obtain tipNum chainInfo headers fullBlocks
    where s: "snap = make_snapshot tipNum chainInfo headers fullBlocks" by blast
  have 1: "avgBlockTimeSec snap = toFixed2 (avgSec_of (blocks snap))"
    by (simp add: s avgBlockTimeSec_make_snapshot blocks_make_snapshot)
  have 4: "blocks snap = [] \<longrightarrow> avgSec_of (blocks snap) = 0 \<and> avgBlockTimeSec snap = ''0.00''"
  proof
    assume "blocks snap = []"
    then have "avgSec_of (blocks snap) = 0"
      by (simp add: avgSec_of_spec spec_mean_blockTime_def fl_0)
    then show "avgSec_of (blocks snap) = 0 \<and> avgBlockTimeSec snap = ''0.00''"
      using 1 by (simp add: toFixed2_eval)
  qed
  from 1 avgSec_of_spec[of "blocks snap"] avgSec_of_error[of "blocks snap"] 4
  show ?thesis by (intro conjI)
qed

theorem average_block_time_witness:
  "(let nd = \<lparr>tip_reply = answer \<lparr>number = 1, timestamp = 1125\<rparr>,
              info_reply = answer \<lparr>difficulty = Some ''0x10''\<rparr>,
              info_rejects_first = False,
              headers_reply = batch_answer [Some \<lparr>number = 0, timestamp = 1000\<rparr>,
                                            Some \<lparr>number = 1, timestamp = 1125\<rparr>],
              blocks_reply = batch_answer [None, None]\<rparr>
    in \<not> fresh 0 initial
       \<and> (\<exists>snap. fst (buildHistory 0 nd initial) = Inr snap
             \<and> map blockTime (blocks snap) = [125]
             \<and> avgSec_of (blocks snap) = 1 / 8
             \<and> avgBlockTimeSec snap = toFixed2 (avgSec_of (blocks snap))
             \<and> avgBlockTimeSec snap = ''0.13''))"
proof -
  define nd where "nd = \<lparr>tip_reply = answer \<lparr>number = 1, timestamp = 1125\<rparr>,
              info_reply = answer \<lparr>difficulty = Some ''0x10''\<rparr>,
              info_rejects_first = False,
              headers_reply = batch_answer [Some \<lparr>number = 0, timestamp = 1000\<rparr>,
                                            Some \<lparr>number = 1, timestamp = 1125\<rparr>],
              blocks_reply = batch_answer [None, None]\<rparr>"
  define snap where "snap = make_snapshot 1 (Some \<lparr>difficulty = Some ''0x10''\<rparr>)
            [Some \<lparr>number = 0, timestamp = 1000\<rparr>, Some \<lparr>number = 1, timestamp = 1125\<rparr>]
            [None, None]"
  have stale: "\<not> fresh 0 initial" by (simp add: fresh_def initial_def)
  have r: "fst (buildHistory 0 nd initial) = Inr snap"
    unfolding nd_def snap_def by (rule two_block_snapshot)
  have b: "blocks snap = [\<lparr>bd_number = 1, bd_timestamp = 1125, txCount = None, blockTime = 125\<rparr>]"
    unfolding snap_def by (rule two_block_blocks)
  have a: "avgSec_of (blocks snap) = 1 / 8" unfolding b by (rule two_block_avgSec)
  from average_block_time[OF stale r]
  have t: "avgBlockTimeSec snap = toFixed2 (avgSec_of (blocks snap))" by (elim conjE)
  then have v: "avgBlockTimeSec snap = ''0.13''" by (simp only: a toFixed2_eighth)
  have "map blockTime (blocks snap) = [125]" by (simp add: b)
  with r a t v have "fst (buildHistory 0 nd initial) = Inr snap
             \<and> map blockTime (blocks snap) = [125]
             \<and> avgSec_of (blocks snap) = 1 / 8
             \<and> avgBlockTimeSec snap = toFixed2 (avgSec_of (blocks snap))
             \<and> avgBlockTimeSec snap = ''0.13''" by (intro conjI)
  then have "\<exists>snap. fst (buildHistory 0 nd initial) = Inr snap
             \<and> map blockTime (blocks snap) = [125]
             \<and> avgSec_of (blocks snap) = 1 / 8
             \<and> avgBlockTimeSec snap = toFixed2 (avgSec_of (blocks snap))
             \<and> avgBlockTimeSec snap = ''0.13''" by (rule exI)
  with stale show ?thesis unfolding Let_def nd_def[symmetric] by (intro conjI)
qed

subsection \<open>Difficulty and hashrate\<close>

lemmas BigInt_eval = BigInt_0x_def replace_0x_def trimEnd_def white_space_def hex_value_def
  suffix_to_prefix Let_def


lemma parse_difficulty_None_iff:
  "parse_difficulty chainInfo = None \<longleftrightarrow>
     chainInfo = None
     \<or> (\<exists>c. chainInfo = Some c \<and> difficulty c = None)
     \<or> (\<exists>c s. chainInfo = Some c \<and> difficulty c = Some s \<and> BigInt_0x (replace_0x s) = None)"
  by (auto simp: parse_difficulty_def split: option.splits)

lemma make_snapshot_unparsable:
  "parse_difficulty chainInfo = None \<Longrightarrow>
     networkHashrate (make_snapshot tipNum chainInfo headers fullBlocks) = unavailable
     \<and> hashratePerBlock (make_snapshot tipNum chainInfo headers fullBlocks) = []"
  by (simp add: make_snapshot_def hashrates_def Let_def)

text \<open>
  Claim C4. In a cycle whose fetches succeed but whose \<^verbatim>\<open>chainInfo.difficulty\<close> is missing
  (\<^verbatim>\<open>chainInfo\<close> is \<^verbatim>\<open>null\<close>, or it has no string \<^verbatim>\<open>difficulty\<close>) or does not parse as a
  hexadecimal BigInt, \<^verbatim>\<open>buildHistory\<close> still resolves with a snapshot, which it also
  stores in the cache; the snapshot's \<open>networkHashrate\<close> is the sentinel and its
  \<open>hashratePerBlock\<close> is empty.
\<close>

theorem unparsable_difficulty:
  assumes "\<not> fresh now st"
    and "call_result (tip_reply nd) = Inr (Some th)"
    and "call_result (info_reply nd) = Inr chainInfo"
    and "batch_result (headers_reply nd) = Inr headers"
    and "batch_result (blocks_reply nd) = Inr fullBlocks"
    and "chainInfo = None
         \<or> (\<exists>c. chainInfo = Some c \<and> difficulty c = None)
         \<or> (\<exists>c s. chainInfo = Some c \<and> difficulty c = Some s \<and> BigInt_0x (replace_0x s) = None)"
  shows "\<exists>snap. fst (buildHistory now nd st) = Inr snap
           \<and> histCache (snd (buildHistory now nd st)) = Some snap
           \<and> networkHashrate snap = unavailable
           \<and> hashratePerBlock snap = []"
proof -
  let ?snap = "make_snapshot (number th) chainInfo headers fullBlocks"
  have b: "buildHistory now nd st = refresh now nd st"
    using assms(1) by (rule buildHistory_stale)
  have r: "fst (buildHistory now nd st) = Inr ?snap"
    unfolding b using assms(2-5) by (rule refresh_succeeds)
  then have c: "histCache (snd (buildHistory now nd st)) = Some ?snap"
    by (simp add: b refresh_cache)
  have "parse_difficulty chainInfo = None"
    using assms(6) by (simp add: parse_difficulty_None_iff)
  from make_snapshot_unparsable[OF this] r c show ?thesis by blast
qed

text \<open>A chain of one block (the tip is block 0) whose node reports the difficulty
  \<^verbatim>\<open>0xzz\<close>.\<close>

theorem unparsable_difficulty_witness:
  "(let h0 = \<lparr>number = 0, timestamp = 1000\<rparr>;
        ci = \<lparr>difficulty = Some ''0xzz''\<rparr>;
        nd = \<lparr>tip_reply = answer h0, info_reply = answer ci, info_rejects_first = False,
              headers_reply = batch_answer [Some h0],
              blocks_reply = batch_answer [Some \<lparr>header = Some h0, transactions = Some [''cellbase'']\<rparr>]\<rparr>
    in \<not> fresh 0 initial
       \<and> call_result (tip_reply nd) = Inr (Some h0)
       \<and> call_result (info_reply nd) = Inr (Some ci)
       \<and> BigInt_0x (replace_0x ''0xzz'') = None
       \<and> (\<exists>snap. fst (buildHistory 0 nd initial) = Inr snap
           \<and> histCache (snd (buildHistory 0 nd initial)) = Some snap
           \<and> networkHashrate snap = unavailable
           \<and> hashratePerBlock snap = []))"
proof -
  define h0 where "h0 = \<lparr>number = 0, timestamp = 1000\<rparr>"
  define ci where "ci = \<lparr>difficulty = Some ''0xzz''\<rparr>"
  define blk where "blk = \<lparr>header = Some h0, transactions = Some [''cellbase'']\<rparr>"
  define nd where "nd = \<lparr>tip_reply = answer h0, info_reply = answer ci,
    info_rejects_first = False, headers_reply = batch_answer [Some h0],
    blocks_reply = batch_answer [Some blk]\<rparr>"
  have stale: "\<not> fresh 0 initial" by (simp add: fresh_def initial_def)
  have t: "call_result (tip_reply nd) = Inr (Some h0)"
    by (simp add: nd_def call_result_answer)
  have i: "call_result (info_reply nd) = Inr (Some ci)"
    by (simp add: nd_def call_result_answer)
  have hs: "batch_result (headers_reply nd) = Inr [Some h0]"
    by (simp add: nd_def batch_result_batch_answer)
  have bs: "batch_result (blocks_reply nd) = Inr [Some blk]"
    by (simp add: nd_def batch_result_batch_answer)
  have p: "BigInt_0x (replace_0x ''0xzz'') = None"
    by (simp add: BigInt_eval)
  have d: "Some ci = None
         \<or> (\<exists>c. Some ci = Some c \<and> difficulty c = None)
         \<or> (\<exists>c s. Some ci = Some c \<and> difficulty c = Some s \<and> BigInt_0x (replace_0x s) = None)"
    using p by (simp add: ci_def)
  from unparsable_difficulty[OF stale t i hs bs d] stale t i p show ?thesis
    unfolding Let_def h0_def[symmetric] ci_def[symmetric] blk_def[symmetric] nd_def[symmetric]
    by blast
qed

subsection \<open>Failed refreshes\<close>

text \<open>
  Claim C5. When a refresh fails during a mandatory fetch, the cycle fails with the
  error of that fetch and the cache slot is as before: if the tip-header call or the
  chain-info call rejects, \<^verbatim>\<open>buildHistory\<close> rejects with the reason of one of them (the
  one \<^verbatim>\<open>Promise.all\<close> saw first); if both succeed and the header batch rejects,
  \<^verbatim>\<open>buildHistory\<close> rejects with the reason of the header batch; and whenever
  \<^verbatim>\<open>buildHistory\<close> rejects, \<^verbatim>\<open>histCache\<close> and \<^verbatim>\<open>histCacheTime\<close> are unchanged.
\<close>

theorem failed_refresh_keeps_cache:
  assumes "\<not> fresh now st"
  shows "(isl (call_result (tip_reply nd)) \<or> isl (call_result (info_reply nd)) \<longrightarrow>
            (\<exists>e. fst (buildHistory now nd st) = Inl e
                  \<and> (call_result (tip_reply nd) = Inl e \<or> call_result (info_reply nd) = Inl e)))
       \<and> (call_result (tip_reply nd) = Inr (Some th) \<and> call_result (info_reply nd) = Inr ci
            \<and> batch_result (headers_reply nd) = Inl e3 \<longrightarrow>
            fst (buildHistory now nd st) = Inl e3)
       \<and> (isl (fst (buildHistory now nd st)) \<longrightarrow>
            histCache (snd (buildHistory now nd st)) = histCache st
            \<and> histCacheTime (snd (buildHistory now nd st)) = histCacheTime st)"
proof -
  let ?tip = "call_result (tip_reply nd)" and ?info = "call_result (info_reply nd)"
  have b: "buildHistory now nd st = refresh now nd st"
    using assms by (rule buildHistory_stale)
  have 1: "\<exists>e. fst (buildHistory now nd st) = Inl e \<and> (?tip = Inl e \<or> ?info = Inl e)"
    if "isl ?tip \<or> isl ?info"
  proof -
    from Promise_all_rejects[OF that] obtain e
      where e: "Promise_all (info_rejects_first nd) ?tip ?info = Inl e" by blast
    then have "fst (buildHistory now nd st) = Inl e" by (simp add: b refresh_fst)
    with Promise_all_Inl[OF e] show ?thesis by blast
  qed
  have 2: "fst (buildHistory now nd st) = Inl e3"
    if "?tip = Inr (Some th) \<and> ?info = Inr ci \<and> batch_result (headers_reply nd) = Inl e3"
    using that by (simp add: b refresh_fst Promise_all_Inr)
  have 3: "histCache (snd (buildHistory now nd st)) = histCache st
            \<and> histCacheTime (snd (buildHistory now nd st)) = histCacheTime st"
    if "isl (fst (buildHistory now nd st))"
    using that by (auto simp add: b refresh_cache isl_def)
  show ?thesis using 1 2 3 by blast
qed

text \<open>A stale cache; in the first refresh the tip-header call times out, in the second
  the socket of the header batch is reset.\<close>

theorem failed_refresh_keeps_cache_witness:
  "(let snap = \<lparr>blocks = [], avgBlockTimeSec = ''0.00'', networkHashrate = ''1.00 TH/s'',
                hashratePerBlock = [], tipHeight = 0\<rparr>;
        st = \<lparr>rpcId = 5, histCache = Some snap, histCacheTime = 0, sent = []\<rparr>;
        ok_info = Parsed (Object \<lparr>resp_id = 6, resp_error = None,
                                  resp_result = Some \<lparr>difficulty = Some ''0x10''\<rparr>\<rparr>);
        th = \<lparr>number = 5, timestamp = 1000\<rparr>;
        nd1 = \<lparr>tip_reply = Timeout, info_reply = ok_info, info_rejects_first = False,
               headers_reply = Timeout, blocks_reply = Timeout\<rparr>;
        nd2 = \<lparr>tip_reply = Parsed (Object \<lparr>resp_id = 5, resp_error = None, resp_result = Some th\<rparr>),
               info_reply = ok_info, info_rejects_first = False,
               headers_reply = SocketError ''ECONNRESET'' ''socket hang up'',
               blocks_reply = Timeout\<rparr>
    in \<not> fresh 20000 st
       \<and> isl (call_result (tip_reply nd1))
       \<and> fst (buildHistory 20000 nd1 st) = Inl (Error ''CKB node request timed out'')
       \<and> histCache (snd (buildHistory 20000 nd1 st)) = Some snap
       \<and> histCacheTime (snd (buildHistory 20000 nd1 st)) = 0
       \<and> batch_result (headers_reply nd2) = Inl (SystemError ''ECONNRESET'' ''socket hang up'')
       \<and> fst (buildHistory 20000 nd2 st) = Inl (SystemError ''ECONNRESET'' ''socket hang up'')
       \<and> histCache (snd (buildHistory 20000 nd2 st)) = Some snap
       \<and> histCacheTime (snd (buildHistory 20000 nd2 st)) = 0)"
proof -
  define snap where "snap = \<lparr>blocks = [], avgBlockTimeSec = ''0.00'',
    networkHashrate = ''1.00 TH/s'', hashratePerBlock = [], tipHeight = 0\<rparr>"
  define st where "st = \<lparr>rpcId = 5, histCache = Some snap, histCacheTime = 0, sent = []\<rparr>"
  define ok_info :: "chain_info wire" where "ok_info = Parsed (Object \<lparr>resp_id = 6,
    resp_error = None, resp_result = Some \<lparr>difficulty = Some ''0x10''\<rparr>\<rparr>)"
  define th where "th = \<lparr>number = 5, timestamp = 1000\<rparr>"
  define nd1 where "nd1 = \<lparr>tip_reply = Timeout, info_reply = ok_info,
    info_rejects_first = False, headers_reply = Timeout, blocks_reply = Timeout\<rparr>"
  define nd2 where "nd2 = \<lparr>tip_reply = Parsed (Object \<lparr>resp_id = 5, resp_error = None,
    resp_result = Some th\<rparr>), info_reply = ok_info, info_rejects_first = False,
    headers_reply = SocketError ''ECONNRESET'' ''socket hang up'', blocks_reply = Timeout\<rparr>"
  have stale: "\<not> fresh 20000 st" by (simp add: fresh_def st_def HIST_TTL_def)
  have c: "histCache st = Some snap" "histCacheTime st = 0" by (simp_all add: st_def)
  have t1: "call_result (tip_reply nd1) = Inl (Error ''CKB node request timed out'')"
    by (simp add: nd1_def call_result_def settle_def)
  have i1: "call_result (info_reply nd1) = Inr (Some \<lparr>difficulty = Some ''0x10''\<rparr>)"
    by (simp add: nd1_def ok_info_def call_result_def settle_def rpcCall_then_def)
  have t2: "call_result (tip_reply nd2) = Inr (Some th)"
    by (simp add: nd2_def call_result_def settle_def rpcCall_then_def)
  have i2: "call_result (info_reply nd2) = Inr (Some \<lparr>difficulty = Some ''0x10''\<rparr>)"
    by (simp add: nd2_def ok_info_def call_result_def settle_def rpcCall_then_def)
  have h2: "batch_result (headers_reply nd2) = Inl (SystemError ''ECONNRESET'' ''socket hang up'')"
    by (simp add: nd2_def batch_result_def settle_def)
  note w1 = failed_refresh_keeps_cache[OF stale, of nd1]
  note w2 = failed_refresh_keeps_cache[OF stale, of nd2 th "Some \<lparr>difficulty = Some ''0x10''\<rparr>"
      "SystemError ''ECONNRESET'' ''socket hang up''"]
  have r1: "fst (buildHistory 20000 nd1 st) = Inl (Error ''CKB node request timed out'')"
    using w1 t1 i1 by auto
  have r2: "fst (buildHistory 20000 nd2 st) = Inl (SystemError ''ECONNRESET'' ''socket hang up'')"
    using w2 t2 i2 h2 by blast
  have k1: "histCache (snd (buildHistory 20000 nd1 st)) = Some snap
     \<and> histCacheTime (snd (buildHistory 20000 nd1 st)) = 0"
    using w1 r1 c by simp
  have k2: "histCache (snd (buildHistory 20000 nd2 st)) = Some snap
     \<and> histCacheTime (snd (buildHistory 20000 nd2 st)) = 0"
    using w2 r2 c by simp
  show ?thesis
    unfolding Let_def snap_def[symmetric] st_def[symmetric] ok_info_def[symmetric]
      th_def[symmetric] nd1_def[symmetric] nd2_def[symmetric]
    using stale t1 r1 k1 h2 r2 k2 by simp
qed

subsection \<open>The window of blocks\<close>

lemma build_blockData_present:
  "map bd_number (build_blockData txMap (map Some hs)) = map number (tl hs)"
  by (induction hs rule: induct_list012) simp_all

lemma build_blockData_blockTime:
  "map blockTime (build_blockData txMap (map Some hs)) =
     map (\<lambda>(p, h). int (timestamp h) - int (timestamp p)) (zip hs (tl hs))"
  by (induction hs rule: induct_list012) simp_all

text \<open>A header that the node does not return (\<^verbatim>\<open>null\<close> in the batch) takes two entries
  away: its own and that of the next height.\<close>

lemma build_blockData_missing:
  "map bd_number (build_blockData txMap [Some h0, None, Some h2, Some h3]) = [number h3]"
  by simp

lemma tipHeight_make_snapshot:
  "tipHeight (make_snapshot tipNum chainInfo headers fullBlocks) = tipNum"
  by (simp add: make_snapshot_def Let_def split: prod.splits)
















subsection \<open>The hashrate formatter\<close>



















subsection \<open>Failure of the transaction-count batch\<close>

text \<open>
  Claim C8 as stated (if the batch fetch of the full blocks fails, the cycle still
  succeeds, with null transaction counts) does not hold: with a chain of two blocks
  whose tip header, chain info and header batch arrive, and a full-block batch that
  times out, \<^verbatim>\<open>buildHistory\<close> rejects with the timeout error and stores no snapshot.
\<close>

theorem tx_batch_failure_counterexample:
  "fst (buildHistory 0
     \<lparr>tip_reply = answer \<lparr>number = 1, timestamp = 9000\<rparr>,
      info_reply = answer \<lparr>difficulty = Some ''0x10''\<rparr>,
      info_rejects_first = False,
      headers_reply = batch_answer [Some \<lparr>number = 0, timestamp = 1000\<rparr>,
                                    Some \<lparr>number = 1, timestamp = 9000\<rparr>],
      blocks_reply = Timeout\<rparr> initial)
     = Inl (Error ''CKB node request timed out'')
   \<and> histCache (snd (buildHistory 0
     \<lparr>tip_reply = answer \<lparr>number = 1, timestamp = 9000\<rparr>,
      info_reply = answer \<lparr>difficulty = Some ''0x10''\<rparr>,
      info_rejects_first = False,
      headers_reply = batch_answer [Some \<lparr>number = 0, timestamp = 1000\<rparr>,
                                    Some \<lparr>number = 1, timestamp = 9000\<rparr>],
      blocks_reply = Timeout\<rparr> initial)) = None"
proof -
  let ?nd = "\<lparr>tip_reply = answer \<lparr>number = 1, timestamp = 9000\<rparr>,
      info_reply = answer \<lparr>difficulty = Some ''0x10''\<rparr>,
      info_rejects_first = False,
      headers_reply = batch_answer [Some \<lparr>number = 0, timestamp = 1000\<rparr>,
                                    Some \<lparr>number = 1, timestamp = 9000\<rparr>],
      blocks_reply = Timeout\<rparr>"
  have stale: "\<not> fresh 0 initial" by (simp add: fresh_def initial_def)
  have r: "fst (refresh 0 ?nd initial) = Inl (Error ''CKB node request timed out'')"
    by (simp add: refresh_fst call_result_answer batch_result_batch_answer
        batch_result_Timeout Promise_all_Inr)
  then have "histCache (snd (refresh 0 ?nd initial)) = None"
    by (simp add: refresh_cache initial_def)
  with r show ?thesis by (simp add: buildHistory_stale[OF stale])
qed

lemma build_txMap_None:
  assumes "\<forall>blk h. Some blk \<in> set fullBlocks \<and> header blk = Some h \<longrightarrow> number h \<noteq> n"
  shows "build_txMap fullBlocks n = None"
proof (cases "build_txMap fullBlocks n")
  case None
  then show ?thesis .
next
  case (Some v)
  from build_txMap_Some[OF this] assms show ?thesis by blast
qed

text \<open>
  Claim C8, amended. When the tip header, the chain info and the header batch have
  arrived and the batch fetch of the full blocks fails as a whole (a transport failure,
  or a response that is not an array), the cycle fails with that error and leaves the
  cache as it was. Only a block that is missing inside a batch response that did arrive
  degrades: the cycle succeeds, and every entry of \<open>blocks\<close> for whose height no full
  block was returned has a null \<open>txCount\<close>.
\<close>

theorem tx_batch_failure:
  assumes "\<not> fresh now st"
    and "call_result (tip_reply nd) = Inr (Some th)"
    and "call_result (info_reply nd) = Inr chainInfo"
    and "batch_result (headers_reply nd) = Inr headers"
  shows "(batch_result (blocks_reply nd) = Inl e \<longrightarrow>
            fst (buildHistory now nd st) = Inl e
            \<and> histCache (snd (buildHistory now nd st)) = histCache st
            \<and> histCacheTime (snd (buildHistory now nd st)) = histCacheTime st)
       \<and> (batch_result (blocks_reply nd) = Inr fullBlocks \<longrightarrow>
            (\<exists>snap. fst (buildHistory now nd st) = Inr snap
               \<and> (\<forall>b \<in> set (blocks snap).
                     (\<forall>blk h. Some blk \<in> set fullBlocks \<and> header blk = Some h
                              \<longrightarrow> number h \<noteq> bd_number b)
                     \<longrightarrow> txCount b = None)))"
proof -
  have b: "buildHistory now nd st = refresh now nd st"
    using assms(1) by (rule buildHistory_stale)
  have 1: "fst (buildHistory now nd st) = Inl e
            \<and> histCache (snd (buildHistory now nd st)) = histCache st
            \<and> histCacheTime (snd (buildHistory now nd st)) = histCacheTime st"
    if "batch_result (blocks_reply nd) = Inl e"
  proof -
    have "fst (refresh now nd st) = Inl e"
      using assms(2-4) that by (simp add: refresh_fst Promise_all_Inr)
    then show ?thesis by (simp add: b refresh_cache)
  qed
  have 2: "\<exists>snap. fst (buildHistory now nd st) = Inr snap
               \<and> (\<forall>b \<in> set (blocks snap).
                     (\<forall>blk h. Some blk \<in> set fullBlocks \<and> header blk = Some h
                              \<longrightarrow> number h \<noteq> bd_number b)
                     \<longrightarrow> txCount b = None)"
    if "batch_result (blocks_reply nd) = Inr fullBlocks"
  proof -
    let ?snap = "make_snapshot (number th) chainInfo headers fullBlocks"
    have r: "fst (buildHistory now nd st) = Inr ?snap"
      unfolding b using assms(2-4) that by (rule refresh_succeeds)
    have "txCount x = None"
      if "x \<in> set (blocks ?snap)"
        and "\<forall>blk h. Some blk \<in> set fullBlocks \<and> header blk = Some h \<longrightarrow> number h \<noteq> bd_number x"
      for x
      using that build_blockData_txCount[of x "build_txMap fullBlocks" headers]
        build_txMap_None[of fullBlocks "bd_number x"]
      by (simp add: blocks_make_snapshot)
    with r show ?thesis by blast
  qed
  show ?thesis using 1 2 by blast
qed

text \<open>A chain of two blocks; in the first refresh the batch of full blocks times out,
  in the second it arrives with \<^verbatim>\<open>null\<close> for both blocks.\<close>

theorem tx_batch_failure_witness:
  "(let h0 = \<lparr>number = 0, timestamp = 1000\<rparr>;
        h1 = \<lparr>number = 1, timestamp = 9000\<rparr>;
        ci = \<lparr>difficulty = Some ''0x10''\<rparr>;
        nd1 = \<lparr>tip_reply = answer h1, info_reply = answer ci, info_rejects_first = False,
               headers_reply = batch_answer [Some h0, Some h1], blocks_reply = Timeout\<rparr>;
        nd2 = \<lparr>tip_reply = answer h1, info_reply = answer ci, info_rejects_first = False,
               headers_reply = batch_answer [Some h0, Some h1],
               blocks_reply = batch_answer [None, None]\<rparr>
    in \<not> fresh 0 initial
       \<and> call_result (tip_reply nd1) = Inr (Some h1)
       \<and> call_result (info_reply nd1) = Inr (Some ci)
       \<and> batch_result (headers_reply nd1) = Inr [Some h0, Some h1]
       \<and> batch_result (blocks_reply nd1) = Inl (Error ''CKB node request timed out'')
       \<and> fst (buildHistory 0 nd1 initial) = Inl (Error ''CKB node request timed out'')
       \<and> histCache (snd (buildHistory 0 nd1 initial)) = None
       \<and> batch_result (blocks_reply nd2) = Inr [None, None]
       \<and> (\<exists>snap. fst (buildHistory 0 nd2 initial) = Inr snap
             \<and> map txCount (blocks snap) = [None]))"
proof -
  define h0 where "h0 = \<lparr>number = 0, timestamp = 1000\<rparr>"
  define h1 where "h1 = \<lparr>number = 1, timestamp = 9000\<rparr>"
  define ci where "ci = \<lparr>difficulty = Some ''0x10''\<rparr>"
  define nd1 where "nd1 = \<lparr>tip_reply = answer h1, info_reply = answer ci,
    info_rejects_first = False, headers_reply = batch_answer [Some h0, Some h1],
    blocks_reply = Timeout\<rparr>"
  define nd2 where "nd2 = \<lparr>tip_reply = answer h1, info_reply = answer ci,
    info_rejects_first = False, headers_reply = batch_answer [Some h0, Some h1],
    blocks_reply = batch_answer [None, None]\<rparr>"
  have stale: "\<not> fresh 0 initial" by (simp add: fresh_def initial_def)
  have c: "histCache initial = None" by (simp add: initial_def)
  have t1: "call_result (tip_reply nd1) = Inr (Some h1)"
    and i1: "call_result (info_reply nd1) = Inr (Some ci)"
    and hs1: "batch_result (headers_reply nd1) = Inr [Some h0, Some h1]"
    and bs1: "batch_result (blocks_reply nd1) = Inl (Error ''CKB node request timed out'')"
    by (simp_all add: nd1_def call_result_answer batch_result_batch_answer batch_result_Timeout)
  have t2: "call_result (tip_reply nd2) = Inr (Some h1)"
    and i2: "call_result (info_reply nd2) = Inr (Some ci)"
    and hs2: "batch_result (headers_reply nd2) = Inr [Some h0, Some h1]"
    and bs2: "batch_result (blocks_reply nd2) = Inr [None, None]"
    by (simp_all add: nd2_def call_result_answer batch_result_batch_answer)
  note w1 = tx_batch_failure[OF stale t1 i1 hs1, of "Error ''CKB node request timed out''"]
  note w2 = tx_batch_failure[OF stale t2 i2 hs2, of _ "[None, None]"]
  have r1: "fst (buildHistory 0 nd1 initial) = Inl (Error ''CKB node request timed out'')
      \<and> histCache (snd (buildHistory 0 nd1 initial)) = None"
    using w1 bs1 c by simp
  from w2 bs2 obtain snap where snap: "fst (buildHistory 0 nd2 initial) = Inr snap"
    and nulls: "\<forall>b \<in> set (blocks snap). txCount b = None"
    by auto
  have "fst (buildHistory 0 nd2 initial) = Inr (make_snapshot (number h1) (Some ci) [Some h0, Some h1] [None, None])"
    unfolding buildHistory_stale[OF stale] using t2 i2 hs2 bs2 by (rule refresh_succeeds)
  with snap have "snap = make_snapshot (number h1) (Some ci) [Some h0, Some h1] [None, None]"
    by simp
  then have "length (blocks snap) = 1"
    by (simp add: blocks_make_snapshot)
  with nulls have "map txCount (blocks snap) = [None]"
    by (cases "blocks snap") simp_all
  with snap have "fst (buildHistory 0 nd2 initial) = Inr snap
             \<and> map txCount (blocks snap) = [None]" by simp
  then have r2: "\<exists>snap. fst (buildHistory 0 nd2 initial) = Inr snap
             \<and> map txCount (blocks snap) = [None]" by (rule exI)
  show ?thesis
    unfolding Let_def h0_def[symmetric] h1_def[symmetric] ci_def[symmetric]
      nd1_def[symmetric] nd2_def[symmetric]
    using stale t1 i1 hs1 bs1 r1 bs2 r2 by simp
qed

subsection \<open>Concurrent calls\<close>

lemma buildHistory_start_fresh:
  "fresh now st \<Longrightarrow> buildHistory_start now st = (Cached (the (histCache st)), st)"
  by (simp add: buildHistory_start_def)

lemma buildHistory_start_stale:
  assumes "\<not> fresh now st"
  shows "fst (buildHistory_start now st) = Awaiting"
    and "sent (snd (buildHistory_start now st)) =
           sent st @ [Single (Request (rpcId st) ''get_tip_header'' []),
                      Single (Request (rpcId st + 1) ''get_blockchain_info'' [])]"
    and "rpcId (snd (buildHistory_start now st)) = rpcId st + 2"
    and "histCache (snd (buildHistory_start now st)) = histCache st"
    and "histCacheTime (snd (buildHistory_start now st)) = histCacheTime st"
  using assms by (simp_all add: buildHistory_start_def)

text \<open>\<open>buildHistory_start\<close> is the beginning of \<open>buildHistory\<close>: a fresh cache is returned
  with the state untouched, and a refresh first writes the two requests.\<close>

lemma buildHistory_fresh:
  "fresh now st \<Longrightarrow> buildHistory now nd st = (Inr (the (histCache st)), st)"
  by (simp add: buildHistory_def)

lemma refresh_sent_prefix:
  "\<exists>rest. sent (snd (refresh now nd st)) =
            sent st @ [Single (Request (rpcId st) ''get_tip_header'' []),
                       Single (Request (rpcId st + 1) ''get_blockchain_info'' [])] @ rest"
  by (simp add: refresh_def rpcCall_eq rpcBatch_eq Let_def
      split: sum.splits option.splits prod.splits)

lemma refresh_rpcId: "rpcId (snd (refresh now nd st)) = rpcId st + 2"
  by (simp add: refresh_def rpcCall_eq rpcBatch_eq Let_def
      split: sum.splits option.splits prod.splits)

lemma tip_fetches_start:
  "\<not> fresh now st \<Longrightarrow> tip_fetches (snd (buildHistory_start now st)) = tip_fetches st + 1"
  by (simp add: tip_fetches_def buildHistory_start_stale)

lemma fresh_start:
  "fresh now' (snd (buildHistory_start now st)) = fresh now' st"
  by (simp add: fresh_def buildHistory_start_def)

lemma start_calls_Cons:
  "start_calls (now # nows) st = start_calls nows (snd (buildHistory_start now st))"
  by (simp add: start_calls_def)

lemma start_calls_stale:
  assumes "\<forall>now \<in> set nows. \<not> fresh now st"
  shows "tip_fetches (start_calls nows st) = tip_fetches st + length nows
       \<and> rpcId (start_calls nows st) = rpcId st + 2 * length nows
       \<and> histCache (start_calls nows st) = histCache st
       \<and> histCacheTime (start_calls nows st) = histCacheTime st"
  using assms
proof (induction nows arbitrary: st)
  case Nil
  then show ?case by (simp add: start_calls_def)
next
  case (Cons now nows)
  let ?st = "snd (buildHistory_start now st)"
  have s: "\<not> fresh now st" using Cons.prems by simp
  have "\<forall>n \<in> set nows. \<not> fresh n ?st" using Cons.prems by (simp add: fresh_start)
  from Cons.IH[OF this] show ?case
    by (simp add: start_calls_Cons tip_fetches_start[OF s] buildHistory_start_stale[OF s])
qed

text \<open>
  Claim C10 as stated (concurrent calls on a stale cache start exactly one refresh, with
  one tip-header fetch, and all resolve to the same snapshot) does not hold: two calls
  that start on a stale cache before any answer has arrived write two tip-header
  requests, and when the node answers the first with tip 0 and the second with tip 1
  they resolve to snapshots with different tip heights.
\<close>

theorem single_flight_counterexample:
  "\<not> fresh 20000 \<lparr>rpcId = 5, histCache = Some \<lparr>blocks = [], avgBlockTimeSec = ''0.00'',
        networkHashrate = ''1.00 TH/s'', hashratePerBlock = [], tipHeight = 0\<rparr>,
        histCacheTime = 0, sent = []\<rparr>
   \<and> \<not> fresh 20001 \<lparr>rpcId = 5, histCache = Some \<lparr>blocks = [], avgBlockTimeSec = ''0.00'',
        networkHashrate = ''1.00 TH/s'', hashratePerBlock = [], tipHeight = 0\<rparr>,
        histCacheTime = 0, sent = []\<rparr>
   \<and> sent (start_calls [20000, 20001] \<lparr>rpcId = 5, histCache = Some \<lparr>blocks = [],
        avgBlockTimeSec = ''0.00'', networkHashrate = ''1.00 TH/s'', hashratePerBlock = [],
        tipHeight = 0\<rparr>, histCacheTime = 0, sent = []\<rparr>)
       = [Single (Request 5 ''get_tip_header'' []), Single (Request 6 ''get_blockchain_info'' []),
          Single (Request 7 ''get_tip_header'' []), Single (Request 8 ''get_blockchain_info'' [])]
   \<and> tip_fetches (start_calls [20000, 20001] \<lparr>rpcId = 5, histCache = Some \<lparr>blocks = [],
        avgBlockTimeSec = ''0.00'', networkHashrate = ''1.00 TH/s'', hashratePerBlock = [],
        tipHeight = 0\<rparr>, histCacheTime = 0, sent = []\<rparr>) = 2
   \<and> map_sum id tipHeight (fst (buildHistory 20000
        \<lparr>tip_reply = answer \<lparr>number = 0, timestamp = 1000\<rparr>,
         info_reply = answer \<lparr>difficulty = Some ''0x10''\<rparr>, info_rejects_first = False,
         headers_reply = batch_answer [Some \<lparr>number = 0, timestamp = 1000\<rparr>],
         blocks_reply = batch_answer [None]\<rparr>
        \<lparr>rpcId = 5, histCache = Some \<lparr>blocks = [], avgBlockTimeSec = ''0.00'',
         networkHashrate = ''1.00 TH/s'', hashratePerBlock = [], tipHeight = 0\<rparr>,
         histCacheTime = 0, sent = []\<rparr>)) = Inr 0
   \<and> map_sum id tipHeight (fst (buildHistory 20001
        \<lparr>tip_reply = answer \<lparr>number = 1, timestamp = 9000\<rparr>,
         info_reply = answer \<lparr>difficulty = Some ''0x10''\<rparr>, info_rejects_first = False,
         headers_reply = batch_answer [Some \<lparr>number = 0, timestamp = 1000\<rparr>,
                                       Some \<lparr>number = 1, timestamp = 9000\<rparr>],
         blocks_reply = batch_answer [None, None]\<rparr>
        \<lparr>rpcId = 5, histCache = Some \<lparr>blocks = [], avgBlockTimeSec = ''0.00'',
         networkHashrate = ''1.00 TH/s'', hashratePerBlock = [], tipHeight = 0\<rparr>,
         histCacheTime = 0, sent = []\<rparr>)) = Inr 1"
proof -
  define st where "st = \<lparr>rpcId = 5, histCache = Some \<lparr>blocks = [], avgBlockTimeSec = ''0.00'',
        networkHashrate = ''1.00 TH/s'', hashratePerBlock = [], tipHeight = 0\<rparr>,
        histCacheTime = 0, sent = []\<rparr>"
  have f: "\<not> fresh 20000 st" "\<not> fresh 20001 st"
    by (simp_all add: fresh_def st_def HIST_TTL_def)
  have s: "sent (start_calls [20000, 20001] st)
       = [Single (Request 5 ''get_tip_header'' []), Single (Request 6 ''get_blockchain_info'' []),
          Single (Request 7 ''get_tip_header'' []), Single (Request 8 ''get_blockchain_info'' [])]"
    by (simp add: start_calls_def buildHistory_start_def fresh_def st_def HIST_TTL_def write_body_def)
  have t: "tip_fetches (start_calls [20000, 20001] st) = 2"
    by (simp add: tip_fetches_def s)
  have a: "map_sum id tipHeight (fst (buildHistory 20000
        \<lparr>tip_reply = answer \<lparr>number = 0, timestamp = 1000\<rparr>,
         info_reply = answer \<lparr>difficulty = Some ''0x10''\<rparr>, info_rejects_first = False,
         headers_reply = batch_answer [Some \<lparr>number = 0, timestamp = 1000\<rparr>],
         blocks_reply = batch_answer [None]\<rparr> st)) = Inr 0"
    by (simp add: buildHistory_stale[OF f(1)] refresh_fst call_result_answer
        batch_result_batch_answer Promise_all_Inr tipHeight_make_snapshot)
  have b: "map_sum id tipHeight (fst (buildHistory 20001
        \<lparr>tip_reply = answer \<lparr>number = 1, timestamp = 9000\<rparr>,
         info_reply = answer \<lparr>difficulty = Some ''0x10''\<rparr>, info_rejects_first = False,
         headers_reply = batch_answer [Some \<lparr>number = 0, timestamp = 1000\<rparr>,
                                       Some \<lparr>number = 1, timestamp = 9000\<rparr>],
         blocks_reply = batch_answer [None, None]\<rparr> st)) = Inr 1"
    by (simp add: buildHistory_stale[OF f(2)] refresh_fst call_result_answer
        batch_result_batch_answer Promise_all_Inr tipHeight_make_snapshot)
  from f s t a b show ?thesis unfolding st_def by (intro conjI)
qed

text \<open>
  Claim C10, amended. The code has no pending-refresh handle: every call of
  \<^verbatim>\<open>buildHistory\<close> that finds the cache not fresh starts a refresh of its own. \<open>N\<close> calls
  that start on a stale cache before any answer has arrived write \<open>N\<close> tip-header
  requests (the cache slot stays as it was meanwhile), and what a call resolves to is
  determined by the answers to its own requests alone, whatever the time and the module
  state; nothing makes the calls resolve to the same snapshot value.
\<close>

theorem no_single_flight:
  assumes "\<forall>now \<in> set nows. \<not> fresh now st"
  shows "tip_fetches (start_calls nows st) = tip_fetches st + length nows
       \<and> histCache (start_calls nows st) = histCache st
       \<and> histCacheTime (start_calls nows st) = histCacheTime st
       \<and> fst (refresh now1 nd st1) = fst (refresh now2 nd st2)"
  using start_calls_stale[OF assms] by (simp add: refresh_fst)

theorem no_single_flight_witness:
  "(let st = \<lparr>rpcId = 5, histCache = Some \<lparr>blocks = [], avgBlockTimeSec = ''0.00'',
                networkHashrate = ''1.00 TH/s'', hashratePerBlock = [], tipHeight = 0\<rparr>,
              histCacheTime = 0, sent = []\<rparr>
    in \<not> fresh 20000 st \<and> \<not> fresh 20001 st \<and> \<not> fresh 20002 st
       \<and> tip_fetches st = 0
       \<and> tip_fetches (start_calls [20000, 20001, 20002] st) = 3
       \<and> histCache (start_calls [20000, 20001, 20002] st) = histCache st)"
proof -
  define st where "st = \<lparr>rpcId = 5, histCache = Some \<lparr>blocks = [], avgBlockTimeSec = ''0.00'',
        networkHashrate = ''1.00 TH/s'', hashratePerBlock = [], tipHeight = 0\<rparr>,
        histCacheTime = 0, sent = []\<rparr>"
  have f: "\<not> fresh 20000 st" "\<not> fresh 20001 st" "\<not> fresh 20002 st"
    by (simp_all add: fresh_def st_def HIST_TTL_def)
  then have a: "\<forall>now \<in> set [20000, 20001, 20002]. \<not> fresh now st" by simp
  have z: "tip_fetches st = 0" by (simp add: tip_fetches_def st_def)
  from no_single_flight[OF a] z
  have "tip_fetches (start_calls [20000, 20001, 20002] st) = 3
       \<and> histCache (start_calls [20000, 20001, 20002] st) = histCache st"
    by simp
  with f z show ?thesis unfolding Let_def st_def[symmetric] by simp
qed

end
